theory Spec2Isabelle
  imports Main "HOL-Library.Word" "HOL-Library.Char_ord" "HOL-Library.List_Lexorder"
    "HOL-Library.AList" "HOL-Library.Infinite_Set"
begin

section \<open>Python values\<close>

text \<open>
  The values that flow through the converters: what a MySQL row, a YAML configuration
  and a decoded JSON response can hold. Text is a \<open>string\<close>; a \<open>char\<close> stands for
  one code point in the range 0..255. A dict is an association list in insertion
  order, its keys text. Floating point and decimal arithmetic are not modelled: a
  float is its 64-bit pattern, a decimal its sign, coefficient and exponent, and
  their renderings are library parameters (\<open>pylib\<close> below).
\<close>

datatype pyfloat = Float64 "64 word"

datatype decimal = Dec bool nat int

datatype date = Date nat nat nat

datatype datetime = DateTime date nat nat nat nat "int option"

datatype pyval =
    PNone
  | PBool bool
  | PInt int
  | PFloat pyfloat
  | PDecimal decimal
  | PStr string
  | PBytes string
  | PDate date
  | PDateTime datetime
  | PList "pyval list"
  | PDict "(string \<times> pyval) list"

datatype exn =
    KeyError
  | ValueError
  | TypeError
  | OverflowError
  | UnicodeDecodeError
  | IntegrityError
  | Fault string

text \<open>
  Library functions the repository calls and does not define. \<open>float_repr\<close> is
  \<open>repr\<close> of a float; \<open>float_of_int\<close>, \<open>float_of_decimal\<close> and \<open>float_of_text\<close> are
  \<open>float(x)\<close> where it is defined; \<open>decimal_str\<close> is \<open>str\<close> of a Decimal; \<open>obj_repr\<close>
  is \<open>repr\<close> of bytes, lists and dicts; \<open>fromisoformat\<close> is
  \<open>datetime.fromisoformat\<close> (\<open>None\<close> when it raises); \<open>utf8_decode\<close> is
  \<open>bytes.decode('utf-8')\<close> (\<open>None\<close> when it raises); \<open>sha256\<close> is the SHA-256 digest
  of a byte string.
\<close>

record pylib =
  float_repr :: "pyfloat \<Rightarrow> string"
  float_of_int :: "int \<Rightarrow> pyfloat"
  float_of_decimal :: "decimal \<Rightarrow> pyfloat"
  float_of_text :: "string \<Rightarrow> pyfloat"
  decimal_str :: "decimal \<Rightarrow> string"
  obj_repr :: "pyval \<Rightarrow> string"
  fromisoformat :: "string \<Rightarrow> datetime option"
  utf8_decode :: "string \<Rightarrow> string option"
  sha256 :: "string \<Rightarrow> 256 word"

subsection \<open>Text\<close>

definition code :: "char \<Rightarrow> nat" where
  "code c = of_char c"

definition lower_char :: "char \<Rightarrow> char" where
  "lower_char c =
     (if (65 \<le> code c \<and> code c \<le> 90) \<or> (192 \<le> code c \<and> code c \<le> 222 \<and> code c \<noteq> 215)
      then char_of (code c + 32) else c)"

definition lower :: "string \<Rightarrow> string" where
  "lower s = map lower_char s"

definition is_digit :: "char \<Rightarrow> bool" where
  "is_digit c = (48 \<le> code c \<and> code c \<le> 57)"

definition digit_char :: "nat \<Rightarrow> char" where
  "digit_char n = char_of (48 + n mod 10)"

fun nat_str :: "nat \<Rightarrow> string" where
  "nat_str n = (if n < 10 then [digit_char n] else nat_str (n div 10) @ [digit_char n])"

definition int_str :: "int \<Rightarrow> string" where
  "int_str i = (if i < 0 then CHR ''-'' # nat_str (nat (- i)) else nat_str (nat i))"

text \<open>\<open>'%0wd' % n\<close>: zero padding on the left up to width \<open>w\<close>.\<close>

definition pad :: "nat \<Rightarrow> nat \<Rightarrow> string" where
  "pad w n = replicate (w - length (nat_str n)) CHR ''0'' @ nat_str n"

fun join :: "string \<Rightarrow> string list \<Rightarrow> string" where
  "join sep [] = []"
| "join sep [x] = x"
| "join sep (x # y # ys) = x @ sep @ join sep (y # ys)"

text \<open>\<open>s.replace('Z', '+00:00')\<close>: every occurrence is replaced.\<close>

fun replace_Z :: "string \<Rightarrow> string" where
  "replace_Z [] = []"
| "replace_Z (c # cs) = (if c = CHR ''Z'' then ''+00:00'' @ replace_Z cs else c # replace_Z cs)"

text \<open>
  \<open>str.isdigit\<close> on the code points 0..255: the ten digits and the superscripts
  two, three and one (178, 179, 185); \<open>int(s)\<close> accepts only the ten digits.
\<close>

definition isdigit :: "string \<Rightarrow> bool" where
  "isdigit s = (s \<noteq> [] \<and> list_all (\<lambda>c. is_digit c \<or> code c \<in> {178, 179, 185}) s)"

fun digits_val :: "nat \<Rightarrow> string \<Rightarrow> nat" where
  "digits_val acc [] = acc"
| "digits_val acc (c # cs) = digits_val (10 * acc + (code c - 48)) cs"

definition int_of_digits :: "string \<Rightarrow> exn + int" where
  "int_of_digits s =
     (if s \<noteq> [] \<and> list_all is_digit s then Inr (int (digits_val 0 s)) else Inl ValueError)"

subsection \<open>Dates\<close>

text \<open>\<open>date.isoformat()\<close> and \<open>datetime.isoformat(sep)\<close> as the standard library formats them.\<close>

fun date_iso :: "date \<Rightarrow> string" where
  "date_iso (Date y m d) = pad 4 y @ ''-'' @ pad 2 m @ ''-'' @ pad 2 d"

definition format_offset :: "int option \<Rightarrow> string" where
  "format_offset off =
     (case off of
        None \<Rightarrow> []
      | Some v \<Rightarrow>
          (let a = nat \<bar>v\<bar>;
               hh = a div 3600000000;
               r = a mod 3600000000;
               mm = r div 60000000;
               ss = r mod 60000000
           in (if v < 0 then ''-'' else ''+'') @ pad 2 hh @ '':'' @ pad 2 mm @
              (if ss \<noteq> 0
               then '':'' @ pad 2 (ss div 1000000) @
                    (if ss mod 1000000 \<noteq> 0 then ''.'' @ pad 6 (ss mod 1000000) else [])
               else [])))"

fun datetime_iso :: "char \<Rightarrow> datetime \<Rightarrow> string" where
  "datetime_iso sep (DateTime d h mi s us tz) =
     date_iso d @ [sep] @ pad 2 h @ '':'' @ pad 2 mi @ '':'' @ pad 2 s @
     (if us \<noteq> 0 then ''.'' @ pad 6 us else []) @ format_offset tz"

definition isoformat :: "datetime \<Rightarrow> string" where
  "isoformat dt = datetime_iso CHR ''T'' dt"

text \<open>\<open>datetime.combine(d, datetime.min.time())\<close>: midnight of the day, no time zone.\<close>

definition combine_midnight :: "date \<Rightarrow> datetime" where
  "combine_midnight d = DateTime d 0 0 0 0 None"

subsection \<open>\<open>str\<close>, truthiness and \<open>float\<close>\<close>

fun py_str :: "pylib \<Rightarrow> pyval \<Rightarrow> string" where
  "py_str lib PNone = ''None''"
| "py_str lib (PBool b) = (if b then ''True'' else ''False'')"
| "py_str lib (PInt i) = int_str i"
| "py_str lib (PFloat f) = float_repr lib f"
| "py_str lib (PDecimal d) = decimal_str lib d"
| "py_str lib (PStr s) = s"
| "py_str lib (PBytes b) = obj_repr lib (PBytes b)"
| "py_str lib (PDate d) = date_iso d"
| "py_str lib (PDateTime dt) = datetime_iso CHR '' '' dt"
| "py_str lib (PList xs) = obj_repr lib (PList xs)"
| "py_str lib (PDict kvs) = obj_repr lib (PDict kvs)"

text \<open>\<open>bool(v)\<close>. A float is zero when all bits but the sign are clear.\<close>

fun float_is_zero :: "pyfloat \<Rightarrow> bool" where
  "float_is_zero (Float64 w) = (take_bit 63 w = 0)"

fun truthy :: "pyval \<Rightarrow> bool" where
  "truthy PNone = False"
| "truthy (PBool b) = b"
| "truthy (PInt i) = (i \<noteq> 0)"
| "truthy (PFloat f) = (\<not> float_is_zero f)"
| "truthy (PDecimal (Dec sg c e)) = (c \<noteq> 0)"
| "truthy (PStr s) = (s \<noteq> [])"
| "truthy (PBytes b) = (b \<noteq> [])"
| "truthy (PDate d) = True"
| "truthy (PDateTime dt) = True"
| "truthy (PList xs) = (xs \<noteq> [])"
| "truthy (PDict kvs) = (kvs \<noteq> [])"

text \<open>Python's \<open>a or b\<close>: the first operand when it is truthy, else the second.\<close>

definition py_or :: "pyval \<Rightarrow> pyval \<Rightarrow> pyval" where
  "py_or a b = (if truthy a then a else b)"

text \<open>
  Which texts \<open>float()\<close> accepts: surrounding white space, a sign, then \<open>inf\<close>,
  \<open>infinity\<close> or \<open>nan\<close> in any case, or digits with an optional fraction and
  exponent; an underscore may stand between two digits. The parser strips the ASCII
  white space only (the code points 9 to 13 and 32), from bytes and from text alike;
  of a text it first turns the white space above the ASCII range (133 and 160, among
  the code points below 256) into blanks. The separators 28 to 31, which \<open>str.strip\<close>
  would remove, are not stripped, and in bytes neither are 133 and 160.
\<close>

definition is_ascii_space :: "char \<Rightarrow> bool" where
  "is_ascii_space c = ((9 \<le> code c \<and> code c \<le> 13) \<or> code c = 32)"

definition strip_ascii_space :: "string \<Rightarrow> string" where
  "strip_ascii_space s = rev (dropWhile is_ascii_space (rev (dropWhile is_ascii_space s)))"

definition space_to_ascii :: "string \<Rightarrow> string" where
  "space_to_ascii s = map (\<lambda>c. if code c = 133 \<or> code c = 160 then CHR '' '' else c) s"

fun no_double_underscore :: "string \<Rightarrow> bool" where
  "no_double_underscore (a # b # cs) = (\<not> (a = CHR ''_'' \<and> b = CHR ''_'') \<and> no_double_underscore (b # cs))"
| "no_double_underscore _ = True"

definition digitpart :: "string \<Rightarrow> bool" where
  "digitpart s = (s \<noteq> [] \<and> is_digit (hd s) \<and> is_digit (last s) \<and>
     list_all (\<lambda>c. is_digit c \<or> c = CHR ''_'') s \<and> no_double_underscore s)"

definition mantissa :: "string \<Rightarrow> bool" where
  "mantissa s =
     (let a = takeWhile (\<lambda>c. c \<noteq> CHR ''.'') s; r = dropWhile (\<lambda>c. c \<noteq> CHR ''.'') s
      in if r = [] then digitpart a
         else (a = [] \<and> digitpart (tl r)) \<or> (digitpart a \<and> (tl r = [] \<or> digitpart (tl r))))"

definition drop_sign :: "string \<Rightarrow> string" where
  "drop_sign s = (case s of [] \<Rightarrow> [] | c # cs \<Rightarrow> if c = CHR ''+'' \<or> c = CHR ''-'' then cs else s)"

definition floatnumber :: "string \<Rightarrow> bool" where
  "floatnumber s =
     (let m = takeWhile (\<lambda>c. c \<noteq> CHR ''e'' \<and> c \<noteq> CHR ''E'') s;
          r = dropWhile (\<lambda>c. c \<noteq> CHR ''e'' \<and> c \<noteq> CHR ''E'') s
      in mantissa m \<and> (r = [] \<or> digitpart (drop_sign (tl r))))"

text \<open>\<open>float(b)\<close> of bytes, and \<open>float(s)\<close> of a text.\<close>

definition float_literal_bytes :: "string \<Rightarrow> bool" where
  "float_literal_bytes b =
     (let t = drop_sign (strip_ascii_space b)
      in lower t \<in> {''inf'', ''infinity'', ''nan''} \<or> floatnumber t)"

definition float_literal :: "string \<Rightarrow> bool" where
  "float_literal s = float_literal_bytes (space_to_ascii s)"

text \<open>
  \<open>float(v)\<close>. An int rounds to a double unless it is too large
  (\<open>OverflowError\<close>); a bool is an int.
\<close>

fun py_float :: "pylib \<Rightarrow> pyval \<Rightarrow> exn + pyfloat" where
  "py_float lib PNone = Inl TypeError"
| "py_float lib (PBool b) = Inr (float_of_int lib (if b then 1 else 0))"
| "py_float lib (PInt i) =
     (if \<bar>i\<bar> \<ge> 2 ^ 1024 - 2 ^ 970 then Inl OverflowError else Inr (float_of_int lib i))"
| "py_float lib (PFloat f) = Inr f"
| "py_float lib (PDecimal d) = Inr (float_of_decimal lib d)"
| "py_float lib (PStr s) = (if float_literal s then Inr (float_of_text lib s) else Inl ValueError)"
| "py_float lib (PBytes b) =
     (if float_literal_bytes b then Inr (float_of_text lib b) else Inl ValueError)"
| "py_float lib (PDate d) = Inl TypeError"
| "py_float lib (PDateTime dt) = Inl TypeError"
| "py_float lib (PList xs) = Inl TypeError"
| "py_float lib (PDict kvs) = Inl TypeError"

text \<open>\<open>str(float(v))\<close>, the form all three numeric converters return.\<close>

definition str_float :: "pylib \<Rightarrow> pyval \<Rightarrow> exn + pyval" where
  "str_float lib v = (case py_float lib v of Inl e \<Rightarrow> Inl e | Inr f \<Rightarrow> Inr (PStr (float_repr lib f)))"

section \<open>SmartSuiteFieldConverter (config_loader.py)\<close>

text \<open>
  The keyword options a converter reads with \<open>options.get\<close>; \<open>None\<close> is an absent
  key. A value map is a dict.
\<close>

record options =
  value_map :: "(string \<times> pyval) list option"
  include_time :: "pyval option"
  default_country :: "pyval option"
  default_type :: "pyval option"

definition no_options :: options where
  "no_options = \<lparr>value_map = None, include_time = None, default_country = None, default_type = None\<rparr>"

definition array_types :: "string list" where
  "array_types = [''multipleselectfield'', ''emailfield'', ''phonefield'',
                  ''linkfield'', ''linkedrecordfield'', ''memberfield'']"

definition date_object :: "pyval \<Rightarrow> pyval \<Rightarrow> pyval" where
  "date_object d it = PDict [(''date'', d), (''include_time'', it)]"

definition null_value_for_type :: "string \<Rightarrow> pyval" where
  "null_value_for_type field_type =
     (if lower field_type \<in> set array_types then PList []
      else if lower field_type = ''yesno'' then PBool False
      else if lower field_type \<in> set [''number'', ''currency'', ''percent''] then PStr ''0''
      else if lower field_type = ''date'' then date_object PNone (PBool False)
      else PStr [])"

definition to_text :: "pylib \<Rightarrow> options \<Rightarrow> pyval \<Rightarrow> exn + pyval" where
  "to_text lib opts v = Inr (PStr (if v \<noteq> PNone then py_str lib v else []))"

definition to_textarea :: "pylib \<Rightarrow> options \<Rightarrow> pyval \<Rightarrow> exn + pyval" where
  "to_textarea lib opts v = Inr (PStr (if v \<noteq> PNone then py_str lib v else []))"

fun is_decimal :: "pyval \<Rightarrow> bool" where
  "is_decimal (PDecimal d) = True"
| "is_decimal _ = False"

definition to_number :: "pylib \<Rightarrow> options \<Rightarrow> pyval \<Rightarrow> exn + pyval" where
  "to_number lib opts v =
     (if is_decimal v then str_float lib v
      else if v \<noteq> PNone then str_float lib v else Inr (PStr ''0''))"

definition to_currency :: "pylib \<Rightarrow> options \<Rightarrow> pyval \<Rightarrow> exn + pyval" where
  "to_currency lib opts v =
     (if is_decimal v then str_float lib v
      else if v \<noteq> PNone then str_float lib v else Inr (PStr ''0''))"

definition to_percent :: "pylib \<Rightarrow> options \<Rightarrow> pyval \<Rightarrow> exn + pyval" where
  "to_percent lib opts v =
     (if is_decimal v then str_float lib v
      else if v \<noteq> PNone then str_float lib v else Inr (PStr ''0''))"

definition get_include_time :: "options \<Rightarrow> pyval" where
  "get_include_time opts = (case include_time opts of None \<Rightarrow> PBool False | Some x \<Rightarrow> x)"

fun to_date :: "pylib \<Rightarrow> options \<Rightarrow> pyval \<Rightarrow> exn + pyval" where
  "to_date lib opts PNone = Inr (date_object PNone (get_include_time opts))"
| "to_date lib opts (PDateTime dt) = Inr (date_object (PStr (isoformat dt)) (PBool True))"
| "to_date lib opts (PDate d) =
     Inr (date_object (PStr (isoformat (combine_midnight d))) (get_include_time opts))"
| "to_date lib opts (PStr s) =
     (case fromisoformat lib (replace_Z s) of
        Some dt \<Rightarrow> Inr (date_object (PStr (isoformat dt)) (get_include_time opts))
      | None \<Rightarrow> Inr (date_object (PStr s) (get_include_time opts)))"
| "to_date lib opts v = Inr (date_object (PStr (py_str lib v)) (get_include_time opts))"

definition get_value_map :: "options \<Rightarrow> (string \<times> pyval) list" where
  "get_value_map opts = (case value_map opts of None \<Rightarrow> [] | Some m \<Rightarrow> m)"

definition to_single_select :: "pylib \<Rightarrow> options \<Rightarrow> pyval \<Rightarrow> exn + pyval" where
  "to_single_select lib opts v =
     (let vm = get_value_map opts;
          str_value = (if v \<noteq> PNone then py_str lib v else [])
      in case (if vm \<noteq> [] then map_of vm str_value else None) of
           Some x \<Rightarrow> Inr x
         | None \<Rightarrow> Inr (PStr str_value))"

definition to_multiple_select :: "pylib \<Rightarrow> options \<Rightarrow> pyval \<Rightarrow> exn + pyval" where
  "to_multiple_select lib opts v =
     (let vm = get_value_map opts
      in if v = PNone then Inr (PList [])
         else
           let vals = (case v of
                         PList xs \<Rightarrow> map (py_str lib) (filter (\<lambda>x. x \<noteq> PNone) xs)
                       | _ \<Rightarrow> [py_str lib v])
           in if vm \<noteq> []
              then Inr (PList (map (\<lambda>s. case map_of vm s of Some x \<Rightarrow> x | None \<Rightarrow> PStr s) vals))
              else Inr (PList (map PStr vals)))"

fun to_yesno :: "pylib \<Rightarrow> options \<Rightarrow> pyval \<Rightarrow> exn + pyval" where
  "to_yesno lib opts PNone = Inr (PBool False)"
| "to_yesno lib opts (PBool b) = Inr (PBool b)"
| "to_yesno lib opts (PStr s) =
     Inr (PBool (lower s \<in> set [''true'', ''yes'', ''1'', ''t'', ''y'', ''on'']))"
| "to_yesno lib opts v = Inr (PBool (truthy v))"

text \<open>The four list converters have the same body in the source.\<close>

definition to_str_list :: "pylib \<Rightarrow> pyval \<Rightarrow> exn + pyval" where
  "to_str_list lib v =
     (if v = PNone then Inr (PList [])
      else case v of
             PList xs \<Rightarrow> Inr (PList (map (\<lambda>x. PStr (py_str lib x)) (filter truthy xs)))
           | _ \<Rightarrow> Inr (PList (if truthy v then [PStr (py_str lib v)] else [])))"

definition to_email :: "pylib \<Rightarrow> options \<Rightarrow> pyval \<Rightarrow> exn + pyval" where
  "to_email lib opts v = to_str_list lib v"

definition to_link :: "pylib \<Rightarrow> options \<Rightarrow> pyval \<Rightarrow> exn + pyval" where
  "to_link lib opts v = to_str_list lib v"

definition to_linked_record :: "pylib \<Rightarrow> options \<Rightarrow> pyval \<Rightarrow> exn + pyval" where
  "to_linked_record lib opts v = to_str_list lib v"

definition to_assigned_to :: "pylib \<Rightarrow> options \<Rightarrow> pyval \<Rightarrow> exn + pyval" where
  "to_assigned_to lib opts v = to_str_list lib v"

definition create_phone_object :: "pyval \<Rightarrow> pyval \<Rightarrow> pyval \<Rightarrow> pyval" where
  "create_phone_object phone_number country phone_type =
     PDict [(''phone_country'', country), (''phone_number'', phone_number),
            (''phone_extension'', PStr []), (''phone_type'', phone_type)]"

text \<open>\<open>d.get(k)\<close> and \<open>d.get(k, default)\<close>.\<close>

definition dict_get :: "(string \<times> pyval) list \<Rightarrow> string \<Rightarrow> pyval \<Rightarrow> pyval" where
  "dict_get d k dflt = (case map_of d k of None \<Rightarrow> dflt | Some v \<Rightarrow> v)"

fun is_int :: "pyval \<Rightarrow> bool" where
  "is_int (PInt i) = True"
| "is_int (PBool b) = True"
| "is_int _ = False"

definition format_phone_object ::
    "pylib \<Rightarrow> (string \<times> pyval) list \<Rightarrow> pyval \<Rightarrow> pyval \<Rightarrow> exn + pyval" where
  "format_phone_object lib phone_dict dflt_country dflt_type =
     (let phone_number =
            py_or (dict_get phone_dict ''phone_number'' PNone)
              (py_or (dict_get phone_dict ''number'' PNone)
                 (py_or (dict_get phone_dict ''phone'' PNone)
                    (PStr (py_str lib (dict_get phone_dict ''value'' (PStr []))))));
          country = py_or (dict_get phone_dict ''phone_country'' PNone)
                      (py_or (dict_get phone_dict ''country'' PNone) dflt_country);
          extension = py_or (dict_get phone_dict ''phone_extension'' PNone)
                        (py_or (dict_get phone_dict ''extension'' PNone) (PStr []));
          phone_type = py_or (dict_get phone_dict ''phone_type'' PNone)
                         (py_or (dict_get phone_dict ''type'' PNone) dflt_type);
          converted =
            (case phone_type of
               PStr s \<Rightarrow> (if isdigit s then map_sum id PInt (int_of_digits s) else Inr dflt_type)
             | _ \<Rightarrow> (if is_int phone_type then Inr phone_type else Inr dflt_type))
      in case converted of
           Inl e \<Rightarrow> Inl e
         | Inr t \<Rightarrow>
             Inr (PDict [(''phone_country'', country), (''phone_number'', phone_number),
                         (''phone_extension'', PStr (if truthy extension then py_str lib extension else [])),
                         (''phone_type'', t)]))"

fun phone_items :: "pylib \<Rightarrow> pyval \<Rightarrow> pyval \<Rightarrow> pyval list \<Rightarrow> exn + pyval list" where
  "phone_items lib dc dt [] = Inr []"
| "phone_items lib dc dt (v # vs) =
     (case v of
        PDict d \<Rightarrow>
          (case format_phone_object lib d dc dt of
             Inl e \<Rightarrow> Inl e
           | Inr p \<Rightarrow> map_sum id ((#) p) (phone_items lib dc dt vs))
      | _ \<Rightarrow>
          (if truthy v
           then map_sum id ((#) (create_phone_object (PStr (py_str lib v)) dc dt))
                  (phone_items lib dc dt vs)
           else phone_items lib dc dt vs))"

definition to_phone :: "pylib \<Rightarrow> options \<Rightarrow> pyval \<Rightarrow> exn + pyval" where
  "to_phone lib opts v =
     (if v = PNone then Inr (PList [])
      else
        let dc = (case default_country opts of None \<Rightarrow> PStr ''US'' | Some c \<Rightarrow> c);
            dt = (case default_type opts of None \<Rightarrow> PInt 2 | Some t \<Rightarrow> t)
        in case v of
             PList xs \<Rightarrow> map_sum id PList (phone_items lib dc dt xs)
           | PDict d \<Rightarrow>
               (if truthy v then map_sum id (\<lambda>p. PList [p]) (format_phone_object lib d dc dt)
                else Inr (PList []))
           | _ \<Rightarrow>
               (if truthy v then Inr (PList [create_phone_object (PStr (py_str lib v)) dc dt])
                else Inr (PList [])))"

definition converters :: "pylib \<Rightarrow> (string \<times> (options \<Rightarrow> pyval \<Rightarrow> exn + pyval)) list" where
  "converters lib =
     [(''text'', to_text lib), (''textarea'', to_textarea lib), (''title'', to_text lib),
      (''number'', to_number lib), (''currency'', to_currency lib), (''percent'', to_percent lib),
      (''date'', to_date lib), (''singleselect'', to_single_select lib),
      (''multipleselectfield'', to_multiple_select lib), (''yesno'', to_yesno lib),
      (''emailfield'', to_email lib), (''phonefield'', to_phone lib), (''linkfield'', to_link lib),
      (''linkedrecordfield'', to_linked_record lib), (''memberfield'', to_assigned_to lib)]"

definition convert :: "pylib \<Rightarrow> pyval \<Rightarrow> string \<Rightarrow> options \<Rightarrow> exn + pyval" where
  "convert lib v field_type opts =
     (if v = PNone then Inr (null_value_for_type field_type)
      else case map_of (converters lib) (lower field_type) of
             Some converter \<Rightarrow> converter opts v
           | None \<Rightarrow> to_text lib no_options v)"

section \<open>SyncConfig (config_loader.py)\<close>

text \<open>
  One entry of \<open>field_types\<close> or of the legacy \<open>transformations\<close>: its \<open>type\<close>,
  \<open>value_map\<close> and \<open>include_time\<close> keys, each absent or present.
\<close>

record field_rule =
  rule_type :: "string option"
  rule_value_map :: "(string \<times> pyval) list option"
  rule_include_time :: "pyval option"

record sync_config =
  name :: string
  query :: string
  primary_key :: string
  table_id :: string
  field_mappings :: "(string \<times> string) list"
  field_types :: "(string \<times> field_rule) list"
  transformations :: "(string \<times> field_rule) list"

fun auto_convert :: "pylib \<Rightarrow> pyval \<Rightarrow> exn + pyval" where
  "auto_convert lib PNone = Inr PNone"
| "auto_convert lib (PDecimal d) = str_float lib (PDecimal d)"
| "auto_convert lib (PDateTime dt) = Inr (date_object (PStr (isoformat dt)) (PBool True))"
| "auto_convert lib (PDate d) =
     Inr (date_object (PStr (isoformat (combine_midnight d))) (PBool False))"
| "auto_convert lib (PBytes b) =
     (case utf8_decode lib b of None \<Rightarrow> Inl UnicodeDecodeError | Some s \<Rightarrow> Inr (PStr s))"
| "auto_convert lib (PBool b) = Inr (PBool b)"
| "auto_convert lib v = Inr (PStr (py_str lib v))"

text \<open>
  The legacy rules run inside \<open>try\<close>: whatever a converter raises is logged and the
  value falls through to the automatic conversion, as does an unknown rule type.
\<close>

definition legacy_transform :: "pylib \<Rightarrow> field_rule \<Rightarrow> pyval \<Rightarrow> exn + pyval" where
  "legacy_transform lib transform v =
     (let attempt =
        (if rule_type transform = Some ''number'' then Some (to_number lib no_options v)
         else if rule_type transform = Some ''choice''
           then Some (to_single_select lib
                  (no_options\<lparr>value_map :=
                     Some (case rule_value_map transform of None \<Rightarrow> [] | Some m \<Rightarrow> m)\<rparr>) v)
         else if rule_type transform = Some ''date''
           then Some (to_date lib
                  (no_options\<lparr>include_time :=
                     Some (case rule_include_time transform of None \<Rightarrow> PBool False | Some x \<Rightarrow> x)\<rparr>) v)
         else None)
      in case attempt of
           Some (Inr x) \<Rightarrow> Inr x
         | _ \<Rightarrow> auto_convert lib v)"

definition transform_value :: "pylib \<Rightarrow> sync_config \<Rightarrow> string \<Rightarrow> pyval \<Rightarrow> exn + pyval" where
  "transform_value lib cfg field_name v =
     (case map_of (field_types cfg) field_name of
        Some field_config \<Rightarrow>
          convert lib v (case rule_type field_config of None \<Rightarrow> ''text'' | Some t \<Rightarrow> t)
            (no_options\<lparr>value_map := rule_value_map field_config,
                         include_time := rule_include_time field_config\<rparr>)
      | None \<Rightarrow>
          (case map_of (transformations cfg) field_name of
             Some transform \<Rightarrow> legacy_transform lib transform v
           | None \<Rightarrow> auto_convert lib v))"

text \<open>
  \<open>map_record\<close>: the loop over \<open>field_mappings.items()\<close>, the payload built so far
  as the accumulator; \<open>mapped[k] = v\<close> keeps the position of a key already there.
\<close>

fun map_fields :: "pylib \<Rightarrow> sync_config \<Rightarrow> (string \<times> pyval) list \<Rightarrow> (string \<times> string) list
    \<Rightarrow> (string \<times> pyval) list \<Rightarrow> exn + (string \<times> pyval) list" where
  "map_fields lib cfg source_record [] mapped = Inr mapped"
| "map_fields lib cfg source_record ((source_field, smartsuite_field) # rest) mapped =
     (case map_of source_record source_field of
        None \<Rightarrow> map_fields lib cfg source_record rest mapped
      | Some v \<Rightarrow>
          (case transform_value lib cfg source_field v of
             Inl e \<Rightarrow> Inl e
           | Inr tv \<Rightarrow>
               map_fields lib cfg source_record rest (AList.update smartsuite_field tv mapped)))"

definition map_record ::
    "pylib \<Rightarrow> sync_config \<Rightarrow> (string \<times> pyval) list \<Rightarrow> exn + (string \<times> pyval) list" where
  "map_record lib cfg source_record = map_fields lib cfg source_record (field_mappings cfg) []"

section \<open>StateManager (state_manager.py)\<close>

subsection \<open>\<open>calculate_hash\<close>\<close>

text \<open>
  \<open>json.dumps(data, sort_keys=True, default=str)\<close> with the library's defaults: the
  separators \<open>', '\<close> and \<open>': '\<close>, and every character outside the printable ASCII range
  escaped. The items of a dict are sorted by key; a value JSON has no form for
  (decimal, bytes, date, date-time) goes through \<open>str\<close> and is written as text.
\<close>

definition hexchar :: "nat \<Rightarrow> char" where
  "hexchar n = ''0123456789abcdef'' ! (n mod 16)"

definition json_escape :: "char \<Rightarrow> string" where
  "json_escape c =
     (if c = CHR 0x22 then [CHR 0x5C, CHR 0x22]
      else if c = CHR 0x5C then [CHR 0x5C, CHR 0x5C]
      else if code c = 8 then [CHR 0x5C, CHR ''b'']
      else if code c = 12 then [CHR 0x5C, CHR ''f'']
      else if code c = 10 then [CHR 0x5C, CHR ''n'']
      else if code c = 13 then [CHR 0x5C, CHR ''r'']
      else if code c = 9 then [CHR 0x5C, CHR ''t'']
      else if 32 \<le> code c \<and> code c \<le> 126 then [c]
      else [CHR 0x5C, CHR ''u'', CHR ''0'', CHR ''0'', hexchar (code c div 16), hexchar (code c)])"

definition json_string :: "string \<Rightarrow> string" where
  "json_string s = [CHR 0x22] @ concat (map json_escape s) @ [CHR 0x22]"

definition json_float :: "pylib \<Rightarrow> pyfloat \<Rightarrow> string" where
  "json_float lib f =
     (let r = float_repr lib f
      in if r = ''nan'' then ''NaN''
         else if r = ''inf'' then ''Infinity''
         else if r = ''-inf'' then ''-Infinity''
         else r)"

fun json_dumps :: "pylib \<Rightarrow> pyval \<Rightarrow> string" where
  "json_dumps lib PNone = ''null''"
| "json_dumps lib (PBool b) = (if b then ''true'' else ''false'')"
| "json_dumps lib (PInt i) = int_str i"
| "json_dumps lib (PFloat f) = json_float lib f"
| "json_dumps lib (PStr s) = json_string s"
| "json_dumps lib (PList xs) = ''['' @ join '', '' (map (json_dumps lib) xs) @ '']''"
| "json_dumps lib (PDict kvs) =
     ''{'' @ join '', '' (map (\<lambda>kv. json_string (fst kv) @ '': '' @ json_dumps lib (snd kv))
                            (sort_key fst kvs)) @ ''}''"
| "json_dumps lib (PDecimal d) = json_string (py_str lib (PDecimal d))"
| "json_dumps lib (PBytes b) = json_string (py_str lib (PBytes b))"
| "json_dumps lib (PDate d) = json_string (py_str lib (PDate d))"
| "json_dumps lib (PDateTime dt) = json_string (py_str lib (PDateTime dt))"

text \<open>\<open>str.encode()\<close>: UTF-8, one byte below 128 and two bytes up to 255.\<close>

definition utf8_encode :: "string \<Rightarrow> string" where
  "utf8_encode s =
     concat (map (\<lambda>c. if code c < 128 then [c]
                       else [char_of (192 + code c div 64), char_of (128 + code c mod 64)]) s)"

text \<open>\<open>hexdigest()\<close>: the 256 bits as 64 lower-case hexadecimal digits.\<close>

fun hex_digits :: "nat \<Rightarrow> nat \<Rightarrow> string" where
  "hex_digits 0 v = []"
| "hex_digits (Suc n) v = hex_digits n (v div 16) @ [hexchar v]"

definition hexdigest :: "256 word \<Rightarrow> string" where
  "hexdigest w = hex_digits 64 (unat w)"

definition calculate_hash :: "pylib \<Rightarrow> (string \<times> pyval) list \<Rightarrow> string" where
  "calculate_hash lib data = hexdigest (sha256 lib (utf8_encode (json_dumps lib (PDict data))))"

subsection \<open>The SQLite tables\<close>

text \<open>
  The three tables by their columns. \<open>record_mappings\<close> is unique on
  \<open>(sync_name, source_id)\<close> and \<open>sync_metadata\<close> on \<open>sync_name\<close>, so each is a map from
  its key; \<open>sync_runs\<close> is the list of its rows in insertion order, a row's \<open>id\<close> its
  position. The store is the database file alone: its operations fail only where
  a declared constraint fails.
\<close>

record mapping_row =
  smartsuite_record_id :: string
  data_hash :: string
  created_at :: string
  updated_at :: string

record run_row =
  run_id :: nat
  run_sync_name :: string
  started_at :: string
  completed_at :: "string option"
  status :: string
  records_processed :: nat
  records_created :: nat
  records_updated :: nat
  records_skipped :: nat
  error_message :: "string option"

record store =
  sync_runs :: "run_row list"
  record_mappings :: "string \<times> string \<Rightarrow> mapping_row option"
  sync_metadata :: "string \<Rightarrow> (string \<times> string) option"

section \<open>The collaborators and the world\<close>

text \<open>
  A call the engine made to the destination: \<open>create_record(table_id, record_data)\<close> or
  \<open>update_record(table_id, record_id, updates)\<close>.
\<close>

datatype dest_call =
    Create string "(string \<times> pyval) list"
  | Update string string "(string \<times> pyval) list"

text \<open>
  What \<open>create_record\<close> returned, as far as the engine reads it: the \<open>id\<close> entry of
  the response object, absent, null or text.
\<close>

datatype create_response = NoId | NullId | TextId string

text \<open>
  The world a run changes: the state database, the calls made to the destination
  so far, and the number of times the clock has been read.
\<close>

record world =
  db :: store
  dest_calls :: "dest_call list"
  clock :: nat

text \<open>
  What the run does not control. \<open>utcnow n\<close> is the ISO text of the \<open>n\<close>-th clock
  reading. \<open>execute_query\<close> answers a query and its \<open>last_sync_time\<close> parameter with
  the rows or with the message of the error raised; its first argument is the
  moment of the call, since the source changes over time. The destination answers
  a call given the calls made before it: \<open>create_record\<close> with a response or the
  message of the fault raised, \<open>update_record\<close> with the message of a fault or
  nothing.
\<close>

record env =
  py :: pylib
  utcnow :: "nat \<Rightarrow> string"
  execute_query :: "nat \<Rightarrow> string \<Rightarrow> string option \<Rightarrow> string + (string \<times> pyval) list list"
  create_record :: "dest_call list \<Rightarrow> string \<Rightarrow> (string \<times> pyval) list \<Rightarrow> string + create_response"
  update_record :: "dest_call list \<Rightarrow> string \<Rightarrow> string \<Rightarrow> (string \<times> pyval) list \<Rightarrow> string option"

definition tick :: "world \<Rightarrow> world" where
  "tick w = w\<lparr>clock := Suc (clock w)\<rparr>"

subsection \<open>The operations of StateManager\<close>

definition get_last_sync_time :: "store \<Rightarrow> string \<Rightarrow> string option" where
  "get_last_sync_time s sync_name = map_option fst (sync_metadata s sync_name)"

text \<open>The upsert of \<open>sync_metadata\<close>; the second column is a clock reading of its own.\<close>

definition update_last_sync_time :: "env \<Rightarrow> string \<Rightarrow> string \<Rightarrow> world \<Rightarrow> world" where
  "update_last_sync_time e sync_name sync_time w =
     (tick w)\<lparr>db := (db w)\<lparr>sync_metadata :=
        (sync_metadata (db w))(sync_name \<mapsto> (sync_time, utcnow e (clock w)))\<rparr>\<rparr>"

text \<open>
  The insert into \<open>sync_runs\<close>; \<open>UNIQUE(sync_name, started_at)\<close> makes it raise when
  the pair is there already.
\<close>

definition start_sync_run :: "env \<Rightarrow> string \<Rightarrow> world \<Rightarrow> (exn + nat) \<times> world" where
  "start_sync_run e sync_name w =
     (let t = utcnow e (clock w); rows = sync_runs (db w)
      in if list_ex (\<lambda>r. run_sync_name r = sync_name \<and> started_at r = t) rows
         then (Inl IntegrityError, tick w)
         else (Inr (Suc (length rows)),
               (tick w)\<lparr>db := (db w)\<lparr>sync_runs := rows @
                 [\<lparr>run_id = Suc (length rows), run_sync_name = sync_name, started_at = t,
                   completed_at = None, status = ''running'', records_processed = 0,
                   records_created = 0, records_updated = 0, records_skipped = 0,
                   error_message = None\<rparr>]\<rparr>\<rparr>))"

definition complete_sync_run ::
    "env \<Rightarrow> nat \<Rightarrow> string \<Rightarrow> nat \<Rightarrow> nat \<Rightarrow> nat \<Rightarrow> nat \<Rightarrow> string option \<Rightarrow> world \<Rightarrow> world" where
  "complete_sync_run e rid st processed created updated skipped err w =
     (tick w)\<lparr>db := (db w)\<lparr>sync_runs :=
        map (\<lambda>r. if run_id r = rid
                  then r\<lparr>completed_at := Some (utcnow e (clock w)), status := st,
                         records_processed := processed, records_created := created,
                         records_updated := updated, records_skipped := skipped,
                         error_message := err\<rparr>
                  else r) (sync_runs (db w))\<rparr>\<rparr>"

definition get_record_mapping :: "store \<Rightarrow> string \<Rightarrow> string \<Rightarrow> mapping_row option" where
  "get_record_mapping s sync_name source_id = record_mappings s (sync_name, source_id)"

text \<open>
  The upsert of \<open>record_mappings\<close>: a new row gets both timestamps, a row already
  there keeps \<open>created_at\<close>. The identifier column is \<open>NOT NULL\<close>: a null identifier
  makes the statement raise and leave the table as it was.
\<close>

definition save_record_mapping ::
    "env \<Rightarrow> string \<Rightarrow> string \<Rightarrow> string option \<Rightarrow> string \<Rightarrow> world \<Rightarrow> exn option \<times> world" where
  "save_record_mapping e sync_name source_id record_id hash w =
     (let now = utcnow e (clock w)
      in case record_id of
           None \<Rightarrow> (Some IntegrityError, tick w)
         | Some rid \<Rightarrow>
             (None,
              (tick w)\<lparr>db := (db w)\<lparr>record_mappings :=
                 (record_mappings (db w))((sync_name, source_id) \<mapsto>
                    (case record_mappings (db w) (sync_name, source_id) of
                       None \<Rightarrow> \<lparr>smartsuite_record_id = rid, data_hash = hash,
                                 created_at = now, updated_at = now\<rparr>
                     | Some old \<Rightarrow> old\<lparr>smartsuite_record_id := rid, data_hash := hash,
                                         updated_at := now\<rparr>))\<rparr>\<rparr>))"

section \<open>SyncEngine (sync_engine.py)\<close>

datatype action = Created | Updated | Skipped

record stats =
  processed :: nat
  created :: nat
  updated :: nat
  skipped :: nat
  errors :: nat

definition zero_stats :: stats where
  "zero_stats = \<lparr>processed = 0, created = 0, updated = 0, skipped = 0, errors = 0\<rparr>"

text \<open>\<open>created_record['id']\<close>.\<close>

fun response_id :: "create_response \<Rightarrow> exn + string option" where
  "response_id NoId = Inl KeyError"
| "response_id NullId = Inr None"
| "response_id (TextId s) = Inr (Some s)"

text \<open>
  \<open>_sync_record\<close>. An exception leaves with the world as it was when it was
  raised: the destination call already made stays made.
\<close>

definition sync_record ::
    "env \<Rightarrow> sync_config \<Rightarrow> (string \<times> pyval) list \<Rightarrow> world \<Rightarrow> (exn + action) \<times> world" where
  "sync_record e cfg source_record w =
     (case map_of source_record (primary_key cfg) of
        None \<Rightarrow> (Inl KeyError, w)
      | Some pk \<Rightarrow>
          (let source_id = py_str (py e) pk
           in case map_record (py e) cfg source_record of
                Inl ex \<Rightarrow> (Inl ex, w)
              | Inr mapped_record \<Rightarrow>
                  (let hash = calculate_hash (py e) mapped_record
                   in case get_record_mapping (db w) (name cfg) source_id of
                        Some existing \<Rightarrow>
                          (if data_hash existing = hash then (Inr Skipped, w)
                           else
                             (let w1 = w\<lparr>dest_calls := dest_calls w @
                                         [Update (table_id cfg) (smartsuite_record_id existing) mapped_record]\<rparr>
                              in case update_record e (dest_calls w) (table_id cfg)
                                        (smartsuite_record_id existing) mapped_record of
                                   Some msg \<Rightarrow> (Inl (Fault msg), w1)
                                 | None \<Rightarrow>
                                     (case save_record_mapping e (name cfg) source_id
                                             (Some (smartsuite_record_id existing)) hash w1 of
                                        (Some ex, w2) \<Rightarrow> (Inl ex, w2)
                                      | (None, w2) \<Rightarrow> (Inr Updated, w2))))
                      | None \<Rightarrow>
                          (let w1 = w\<lparr>dest_calls := dest_calls w @
                                      [Create (table_id cfg) mapped_record]\<rparr>
                           in case create_record e (dest_calls w) (table_id cfg) mapped_record of
                                Inl msg \<Rightarrow> (Inl (Fault msg), w1)
                              | Inr created_record \<Rightarrow>
                                  (case response_id created_record of
                                     Inl ex \<Rightarrow> (Inl ex, w1)
                                   | Inr smartsuite_id \<Rightarrow>
                                       (case save_record_mapping e (name cfg) source_id
                                               smartsuite_id hash w1 of
                                          (Some ex, w2) \<Rightarrow> (Inl ex, w2)
                                        | (None, w2) \<Rightarrow> (Inr Created, w2)))))))"

fun count_action :: "action \<Rightarrow> stats \<Rightarrow> stats" where
  "count_action Created st = st\<lparr>created := created st + 1\<rparr>"
| "count_action Updated st = st\<lparr>updated := updated st + 1\<rparr>"
| "count_action Skipped st = st\<lparr>skipped := skipped st + 1\<rparr>"

text \<open>The \<open>for\<close> loop of \<open>sync\<close>, with its \<open>try\<close> around each record.\<close>

fun sync_loop ::
    "env \<Rightarrow> sync_config \<Rightarrow> (string \<times> pyval) list list \<Rightarrow> stats \<Rightarrow> world \<Rightarrow> stats \<times> world" where
  "sync_loop e cfg [] st w = (st, w)"
| "sync_loop e cfg (record # rest) st w =
     (case sync_record e cfg record w of
        (Inr result, w1) \<Rightarrow>
          sync_loop e cfg rest (count_action result (st\<lparr>processed := processed st + 1\<rparr>)) w1
      | (Inl ex, w1) \<Rightarrow> sync_loop e cfg rest (st\<lparr>errors := errors st + 1\<rparr>) w1)"

text \<open>
  \<open>sync\<close>. \<open>start_sync_run\<close> stands before the \<open>try\<close>, so what it raises leaves no
  run row; a fault of the source query is recorded as a failed run and raised
  again.
\<close>

definition sync :: "env \<Rightarrow> sync_config \<Rightarrow> world \<Rightarrow> (exn + stats) \<times> world" where
  "sync e cfg w =
     (case start_sync_run e (name cfg) w of
        (Inl ex, w1) \<Rightarrow> (Inl ex, w1)
      | (Inr rid, w1) \<Rightarrow>
          (let last_sync_time = get_last_sync_time (db w1) (name cfg)
           in case execute_query e (clock w1) (query cfg) last_sync_time of
                Inl msg \<Rightarrow>
                  (Inl (Fault msg), complete_sync_run e rid ''failed'' 0 0 0 0 (Some msg) w1)
              | Inr source_records \<Rightarrow>
                  (if source_records = []
                   then (Inr zero_stats, complete_sync_run e rid ''success'' 0 0 0 0 None w1)
                   else
                     (case sync_loop e cfg source_records zero_stats w1 of
                        (st, w2) \<Rightarrow>
                          (let current_time = utcnow e (clock w2);
                               w3 = update_last_sync_time e (name cfg) current_time (tick w2);
                               w4 = complete_sync_run e rid ''success'' (processed st) (created st)
                                      (updated st) (skipped st) None w3
                           in (Inr st, w4))))))"

section \<open>Auxiliary notions and sample inputs\<close>

text \<open>
  The results of \<open>_sync_record\<close> on the rows of a batch, one after the other, each
  from the world its predecessor left: what the loop of \<open>sync\<close> sees.
\<close>

fun outcomes ::
    "env \<Rightarrow> sync_config \<Rightarrow> (string \<times> pyval) list list \<Rightarrow> world \<Rightarrow> (exn + action) list" where
  "outcomes e cfg [] w = []"
| "outcomes e cfg (record # rest) w =
     (case sync_record e cfg record w of (res, w1) \<Rightarrow> res # outcomes e cfg rest w1)"

text \<open>
  A sync of an \<open>orders\<close> table with a typed yes/no field, a destination that
  accepts every call and numbers the records it creates, a source that returns the
  given rows, and an empty state database.
\<close>

definition ex_cfg :: sync_config where
  "ex_cfg = \<lparr>name = ''orders'', query = ''SELECT * FROM orders'', primary_key = ''id'',
     table_id = ''tbl'', field_mappings = [(''id'', ''ext_id''), (''paid'', ''is_paid'')],
     field_types = [(''paid'', \<lparr>rule_type = Some ''yesno'', rule_value_map = None,
                                 rule_include_time = None\<rparr>)],
     transformations = []\<rparr>"

definition ex_env :: "pylib \<Rightarrow> (string \<times> pyval) list list \<Rightarrow> env" where
  "ex_env lib rows = \<lparr>py = lib, utcnow = nat_str,
     execute_query = (\<lambda>t q l. Inr rows),
     create_record = (\<lambda>h t p. Inr (TextId (nat_str (length h)))),
     update_record = (\<lambda>h t r p. None)\<rparr>"

definition ex_world :: world where
  "ex_world = \<lparr>db = \<lparr>sync_runs = [], record_mappings = (\<lambda>k. None),
                      sync_metadata = (\<lambda>k. None)\<rparr>,
                dest_calls = [], clock = 0\<rparr>"

definition ex_row :: "(string \<times> pyval) list" where
  "ex_row = [(''id'', PInt 7), (''paid'', PStr ''yes'')]"

definition ex_payload :: "(string \<times> pyval) list" where
  "ex_payload = [(''ext_id'', PStr ''7''), (''is_paid'', PBool True)]"

definition ex_world_with :: "string \<Rightarrow> world" where
  "ex_world_with h = \<lparr>db = \<lparr>sync_runs = [],
       record_mappings = [(''orders'', ''7'') \<mapsto>
          \<lparr>smartsuite_record_id = ''rec1'', data_hash = h, created_at = ''0'', updated_at = ''0''\<rparr>],
       sync_metadata = (\<lambda>k. None)\<rparr>,
     dest_calls = [], clock = 5\<rparr>"

definition ex_env_faulty :: "pylib \<Rightarrow> (string \<times> pyval) list list \<Rightarrow> env" where
  "ex_env_faulty lib rows = \<lparr>py = lib, utcnow = nat_str,
     execute_query = (\<lambda>t q l. Inr rows),
     create_record = (\<lambda>h t p. if h = [] then Inl ''503 Service Unavailable''
                               else Inr (TextId (nat_str (length h)))),
     update_record = (\<lambda>h t r p. None)\<rparr>"

definition ex_row2 :: "(string \<times> pyval) list" where
  "ex_row2 = [(''id'', PInt 8), (''paid'', PStr ''no'')]"

definition ex_cfg_number :: sync_config where
  "ex_cfg_number = \<lparr>name = ''invoices'', query = ''SELECT * FROM invoices'', primary_key = ''id'',
     table_id = ''tbl'', field_mappings = [(''amount'', ''total'')],
     field_types = [(''amount'', \<lparr>rule_type = Some ''number'', rule_value_map = None,
                                   rule_include_time = None\<rparr>)],
     transformations = []\<rparr>"

definition ex_cfg_legacy :: sync_config where
  "ex_cfg_legacy = \<lparr>name = ''invoices'', query = ''SELECT * FROM invoices'', primary_key = ''id'',
     table_id = ''tbl'', field_mappings = [(''amount'', ''total'')],
     field_types = [],
     transformations = [(''amount'', \<lparr>rule_type = Some ''number'', rule_value_map = None,
                                       rule_include_time = None\<rparr>)]\<rparr>"

definition ex_null_row :: "(string \<times> pyval) list" where
  "ex_null_row = [(''id'', PNone), (''paid'', PNone)]"








definition ex_payload_changed :: "(string \<times> pyval) list" where
  "ex_payload_changed = [(''ext_id'', PStr ''7''), (''is_paid'', PBool False)]"


text \<open>
  A configuration that maps two source fields to the same destination field, the
  first with a declared type, the second with no rule.
\<close>

definition ex_cfg_shared :: sync_config where
  "ex_cfg_shared = \<lparr>name = ''invoices'', query = ''SELECT * FROM invoices'', primary_key = ''id'',
     table_id = ''tbl'', field_mappings = [(''amount'', ''total''), (''note'', ''total'')],
     field_types = [(''amount'', \<lparr>rule_type = Some ''number'', rule_value_map = None,
                                   rule_include_time = None\<rparr>)],
     transformations = []\<rparr>"

section \<open>Evaluation of the sample inputs\<close>

lemmas conv_simps = transform_value_def convert_def converters_def no_options_def
  null_value_for_type_def array_types_def lower_def lower_char_def code_def char_of_def
  bit_Suc_0_iff auto_convert.simps int_str_def digit_char_def map_record_def

lemmas run_simps = sync_def start_sync_run_def tick_def get_last_sync_time_def
  sync_record_def Let_def zero_stats_def get_record_mapping_def save_record_mapping_def
  update_last_sync_time_def complete_sync_run_def

lemma ex_cfg_sel:
  "name ex_cfg = ''orders''" "primary_key ex_cfg = ''id''" "table_id ex_cfg = ''tbl''"
  "query ex_cfg = ''SELECT * FROM orders''"
  by (simp_all add: ex_cfg_def)

lemma ex_row_key: "map_of ex_row ''id'' = Some (PInt 7)"
  by (simp add: ex_row_def)

lemma map_ex:
  "map_record lib ex_cfg ex_row = Inr [(''ext_id'', PStr ''7''), (''is_paid'', PBool True)]"
  by (simp add: ex_cfg_def ex_row_def conv_simps)

lemma sync_ex_three:
  "fst (sync (ex_env lib [ex_row, [], ex_row]) ex_cfg ex_world) =
     Inr \<lparr>processed = 2, created = 1, updated = 0, skipped = 1, errors = 1\<rparr>"
  by (simp add: run_simps ex_env_def ex_world_def map_ex ex_cfg_sel ex_row_key)

lemmas float_simps = float_literal_def float_literal_bytes_def strip_ascii_space_def
  space_to_ascii_def is_ascii_space_def drop_sign_def floatnumber_def mantissa_def digitpart_def
  is_digit_def code_def Let_def

text \<open>
  The white space \<open>float\<close> strips: blanks around a text, also the no-break space of a
  text, and neither a separator such as code point 28 nor the no-break space in bytes.
\<close>

lemma float_white_space:
  "py_float lib (PStr '' 7 '') = Inr (float_of_text lib '' 7 '')"
  "py_float lib (PStr [char_of (28::nat), CHR ''7'']) = Inl ValueError"
  "py_float lib (PStr [char_of (160::nat), CHR ''7'']) =
     Inr (float_of_text lib [char_of (160::nat), CHR ''7''])"
  "py_float lib (PBytes [char_of (160::nat), CHR ''7'']) = Inl ValueError"
  "py_float lib (PBytes ''7'') = Inr (float_of_text lib ''7'')"
  by (simp_all add: float_simps char_of_def bit_Suc_0_iff lower_def)

section \<open>The yes/no converter\<close>

lemma code_char_of: "n < 256 \<Longrightarrow> code (char_of n) = n"
  by (simp add: code_def)

lemma code_lt: "code c < 256"
  by (simp add: code_def)

lemma code_inj: "code a = code b \<longleftrightarrow> a = b"
  by (simp add: code_def)

lemma lower_char_code:
  "code (lower_char c) =
     (if (65 \<le> code c \<and> code c \<le> 90) \<or> (192 \<le> code c \<and> code c \<le> 222 \<and> code c \<noteq> 215)
      then code c + 32 else code c)"
proof (cases "(65 \<le> code c \<and> code c \<le> 90) \<or> (192 \<le> code c \<and> code c \<le> 222 \<and> code c \<noteq> 215)")
  case True
  then have "code c + 32 < 256" by auto
  from code_char_of[OF this] True show ?thesis by (simp only: lower_char_def if_True)
next
  case False
  then show ?thesis by (simp only: lower_char_def if_False)
qed

lemma lower_char_letter:
  assumes "97 \<le> code k" "code k \<le> 122"
  shows "lower_char c = k \<longleftrightarrow> (code c = code k \<or> code c + 32 = code k)"
proof -
  have "lower_char c = k \<longleftrightarrow> code (lower_char c) = code k" by (simp only: code_inj)
  also have "\<dots> \<longleftrightarrow> (code c = code k \<or> code c + 32 = code k)"
    unfolding lower_char_code using assms by auto
  finally show ?thesis .
qed

lemma code_eq_numeral: "code c = n \<longleftrightarrow> n < 256 \<and> c = char_of n"
proof
  assume "code c = n"
  then show "n < 256 \<and> c = char_of n" using code_lt[of c] by (auto simp: code_def)
next
  assume "n < 256 \<and> c = char_of n"
  then show "code c = n" by (simp add: code_char_of)
qed

lemma lower_char_cases:
  "lower_char c = CHR ''t'' \<longleftrightarrow> c = CHR ''t'' \<or> c = CHR ''T''"
  "lower_char c = CHR ''r'' \<longleftrightarrow> c = CHR ''r'' \<or> c = CHR ''R''"
  "lower_char c = CHR ''u'' \<longleftrightarrow> c = CHR ''u'' \<or> c = CHR ''U''"
  "lower_char c = CHR ''e'' \<longleftrightarrow> c = CHR ''e'' \<or> c = CHR ''E''"
  "lower_char c = CHR ''y'' \<longleftrightarrow> c = CHR ''y'' \<or> c = CHR ''Y''"
  "lower_char c = CHR ''s'' \<longleftrightarrow> c = CHR ''s'' \<or> c = CHR ''S''"
  "lower_char c = CHR ''o'' \<longleftrightarrow> c = CHR ''o'' \<or> c = CHR ''O''"
  "lower_char c = CHR ''n'' \<longleftrightarrow> c = CHR ''n'' \<or> c = CHR ''N''"
proof -
  have k: "code CHR ''t'' = 116" "code CHR ''r'' = 114" "code CHR ''u'' = 117" "code CHR ''e'' = 101"
    "code CHR ''y'' = 121" "code CHR ''s'' = 115" "code CHR ''o'' = 111" "code CHR ''n'' = 110"
    by (simp_all add: code_def)
  have u: "code CHR ''T'' = 84" "code CHR ''R'' = 82" "code CHR ''U'' = 85" "code CHR ''E'' = 69"
    "code CHR ''Y'' = 89" "code CHR ''S'' = 83" "code CHR ''O'' = 79" "code CHR ''N'' = 78"
    by (simp_all add: code_def)
  show "lower_char c = CHR ''t'' \<longleftrightarrow> c = CHR ''t'' \<or> c = CHR ''T''"
    using lower_char_letter[of "CHR ''t''" c] code_inj[of c "CHR ''t''"] code_inj[of c "CHR ''T''"]
    unfolding k u by auto
  show "lower_char c = CHR ''r'' \<longleftrightarrow> c = CHR ''r'' \<or> c = CHR ''R''"
    using lower_char_letter[of "CHR ''r''" c] code_inj[of c "CHR ''r''"] code_inj[of c "CHR ''R''"]
    unfolding k u by auto
  show "lower_char c = CHR ''u'' \<longleftrightarrow> c = CHR ''u'' \<or> c = CHR ''U''"
    using lower_char_letter[of "CHR ''u''" c] code_inj[of c "CHR ''u''"] code_inj[of c "CHR ''U''"]
    unfolding k u by auto
  show "lower_char c = CHR ''e'' \<longleftrightarrow> c = CHR ''e'' \<or> c = CHR ''E''"
    using lower_char_letter[of "CHR ''e''" c] code_inj[of c "CHR ''e''"] code_inj[of c "CHR ''E''"]
    unfolding k u by auto
  show "lower_char c = CHR ''y'' \<longleftrightarrow> c = CHR ''y'' \<or> c = CHR ''Y''"
    using lower_char_letter[of "CHR ''y''" c] code_inj[of c "CHR ''y''"] code_inj[of c "CHR ''Y''"]
    unfolding k u by auto
  show "lower_char c = CHR ''s'' \<longleftrightarrow> c = CHR ''s'' \<or> c = CHR ''S''"
    using lower_char_letter[of "CHR ''s''" c] code_inj[of c "CHR ''s''"] code_inj[of c "CHR ''S''"]
    unfolding k u by auto
  show "lower_char c = CHR ''o'' \<longleftrightarrow> c = CHR ''o'' \<or> c = CHR ''O''"
    using lower_char_letter[of "CHR ''o''" c] code_inj[of c "CHR ''o''"] code_inj[of c "CHR ''O''"]
    unfolding k u by auto
  show "lower_char c = CHR ''n'' \<longleftrightarrow> c = CHR ''n'' \<or> c = CHR ''N''"
    using lower_char_letter[of "CHR ''n''" c] code_inj[of c "CHR ''n''"] code_inj[of c "CHR ''N''"]
    unfolding k u by auto
qed

lemma lower_char_one: "lower_char c = CHR ''1'' \<longleftrightarrow> c = CHR ''1''"
proof -
  have k: "code CHR ''1'' = 49" by (simp add: code_def)
  have "lower_char c = CHR ''1'' \<longleftrightarrow> code (lower_char c) = code CHR ''1''" by (simp only: code_inj)
  also have "\<dots> \<longleftrightarrow> code c = code CHR ''1''"
    unfolding lower_char_code k by auto
  finally show ?thesis by (simp only: code_inj)
qed


lemma lower_on: "lower s = ''on'' \<longleftrightarrow> s \<in> {''on'', ''oN'', ''On'', ''ON''}"
  unfolding lower_def by (auto simp: map_eq_Cons_conv lower_char_cases)


lemma lower_single:
  "lower s = ''1'' \<longleftrightarrow> s = ''1''"
  "lower s = ''t'' \<longleftrightarrow> s \<in> {''t'', ''T''}"
  "lower s = ''y'' \<longleftrightarrow> s \<in> {''y'', ''Y''}"
  unfolding lower_def by (auto simp: map_eq_Cons_conv lower_char_cases lower_char_one)


lemma lower_yes:
  "lower s = ''yes'' \<longleftrightarrow> s \<in> {''yes'', ''yeS'', ''yEs'', ''yES'', ''Yes'', ''YeS'', ''YEs'', ''YES''}"
proof
  assume "lower s = ''yes''"
  then obtain a b c where s: "s = [a, b, c]"
    and d: "a = CHR ''y'' \<or> a = CHR ''Y''" "b = CHR ''e'' \<or> b = CHR ''E''"
           "c = CHR ''s'' \<or> c = CHR ''S''"
    unfolding lower_def by (auto simp: map_eq_Cons_conv lower_char_cases)
  from d show "s \<in> {''yes'', ''yeS'', ''yEs'', ''yES'', ''Yes'', ''YeS'', ''YEs'', ''YES''}"
    unfolding s by (elim disjE) simp_all
next
  assume "s \<in> {''yes'', ''yeS'', ''yEs'', ''yES'', ''Yes'', ''YeS'', ''YEs'', ''YES''}"
  then show "lower s = ''yes''"
    unfolding lower_def by (elim insertE emptyE) (simp_all add: lower_char_cases)
qed

lemma lower_true:
  "lower s = ''true'' \<longleftrightarrow>
     s \<in> {''true'', ''truE'', ''trUe'', ''trUE'', ''tRue'', ''tRuE'', ''tRUe'', ''tRUE'',
          ''True'', ''TruE'', ''TrUe'', ''TrUE'', ''TRue'', ''TRuE'', ''TRUe'', ''TRUE''}"
proof
  assume "lower s = ''true''"
  then obtain a b c d where s: "s = [a, b, c, d]"
    and d: "a = CHR ''t'' \<or> a = CHR ''T''" "b = CHR ''r'' \<or> b = CHR ''R''"
           "c = CHR ''u'' \<or> c = CHR ''U''" "d = CHR ''e'' \<or> d = CHR ''E''"
    unfolding lower_def by (auto simp: map_eq_Cons_conv lower_char_cases)
  from d show "s \<in> {''true'', ''truE'', ''trUe'', ''trUE'', ''tRue'', ''tRuE'', ''tRUe'', ''tRUE'',
          ''True'', ''TruE'', ''TrUe'', ''TrUE'', ''TRue'', ''TRuE'', ''TRUe'', ''TRUE''}"
    unfolding s by (elim disjE) simp_all
next
  assume "s \<in> {''true'', ''truE'', ''trUe'', ''trUE'', ''tRue'', ''tRuE'', ''tRUe'', ''tRUE'',
          ''True'', ''TruE'', ''TrUe'', ''TrUE'', ''TRue'', ''TRuE'', ''TRUe'', ''TRUE''}"
  then show "lower s = ''true''"
    unfolding lower_def by (elim insertE emptyE) (simp_all add: lower_char_cases)
qed


lemma yes_texts:
  "lower s \<in> {''true'', ''yes'', ''1'', ''t'', ''y'', ''on''} \<longleftrightarrow>
   s \<in> {''true'', ''truE'', ''trUe'', ''trUE'', ''tRue'', ''tRuE'', ''tRUe'', ''tRUE'',
        ''True'', ''TruE'', ''TrUe'', ''TrUE'', ''TRue'', ''TRuE'', ''TRUe'', ''TRUE'',
        ''yes'', ''yeS'', ''yEs'', ''yES'', ''Yes'', ''YeS'', ''YEs'', ''YES'',
        ''1'', ''t'', ''T'', ''y'', ''Y'', ''on'', ''oN'', ''On'', ''ON''}"
  by (simp only: insert_iff empty_iff lower_true lower_yes lower_single lower_on disj_assoc simp_thms)

text \<open>
  C10. \<open>to_yesno\<close> maps a text to true exactly when its lower-cased form is one of
  \<open>true\<close>, \<open>yes\<close>, \<open>1\<close>, \<open>t\<close>, \<open>y\<close>, \<open>on\<close>, that is, when the text is one of the
  thirty-three spellings of these words in capital and small letters, and to false for
  every other text (also for a text with a blank around the word, and for the empty
  text); a boolean passes through; null gives false; every other kind of value is
  coerced by its truthiness: an integer is true unless it is zero, a float unless it is
  plus or minus zero, a decimal unless its coefficient is zero, bytes, a list and a dict
  unless they are empty, and a date or a date-time always.
\<close>

theorem to_yesno_coercion:
  "to_yesno lib opts (PStr s) =
     Inr (PBool (s \<in> {''true'', ''truE'', ''trUe'', ''trUE'', ''tRue'', ''tRuE'', ''tRUe'', ''tRUE'',
                       ''True'', ''TruE'', ''TrUe'', ''TrUE'', ''TRue'', ''TRuE'', ''TRUe'', ''TRUE'',
                       ''yes'', ''yeS'', ''yEs'', ''yES'', ''Yes'', ''YeS'', ''YEs'', ''YES'',
                       ''1'', ''t'', ''T'', ''y'', ''Y'', ''on'', ''oN'', ''On'', ''ON''}))
   \<and> (lower s \<in> {''true'', ''yes'', ''1'', ''t'', ''y'', ''on''}) =
       (s \<in> {''true'', ''truE'', ''trUe'', ''trUE'', ''tRue'', ''tRuE'', ''tRUe'', ''tRUE'',
              ''True'', ''TruE'', ''TrUe'', ''TrUE'', ''TRue'', ''TRuE'', ''TRUe'', ''TRUE'',
              ''yes'', ''yeS'', ''yEs'', ''yES'', ''Yes'', ''YeS'', ''YEs'', ''YES'',
              ''1'', ''t'', ''T'', ''y'', ''Y'', ''on'', ''oN'', ''On'', ''ON''})
   \<and> to_yesno lib opts (PStr ''YES'') = Inr (PBool True)
   \<and> to_yesno lib opts (PStr ''On'') = Inr (PBool True)
   \<and> to_yesno lib opts (PStr ''1'') = Inr (PBool True)
   \<and> to_yesno lib opts (PStr ''no'') = Inr (PBool False)
   \<and> to_yesno lib opts (PStr ''0'') = Inr (PBool False)
   \<and> to_yesno lib opts (PStr '' yes'') = Inr (PBool False)
   \<and> to_yesno lib opts (PStr []) = Inr (PBool False)
   \<and> to_yesno lib opts (PBool b) = Inr (PBool b)
   \<and> to_yesno lib opts PNone = Inr (PBool False)
   \<and> to_yesno lib opts (PInt i) = Inr (PBool (i \<noteq> 0))
   \<and> to_yesno lib opts (PInt 5) = Inr (PBool True)
   \<and> to_yesno lib opts (PInt 0) = Inr (PBool False)
   \<and> to_yesno lib opts (PFloat (Float64 w)) = Inr (PBool (take_bit 63 w \<noteq> 0))
   \<and> to_yesno lib opts (PDecimal (Dec sg c ex)) = Inr (PBool (c \<noteq> 0))
   \<and> to_yesno lib opts (PBytes bs) = Inr (PBool (bs \<noteq> []))
   \<and> to_yesno lib opts (PDate dd) = Inr (PBool True)
   \<and> to_yesno lib opts (PDateTime dt) = Inr (PBool True)
   \<and> to_yesno lib opts (PList xs) = Inr (PBool (xs \<noteq> []))
   \<and> to_yesno lib opts (PDict kvs) = Inr (PBool (kvs \<noteq> []))"
proof -
  have t: "to_yesno lib opts (PStr s) =
     Inr (PBool (s \<in> {''true'', ''truE'', ''trUe'', ''trUE'', ''tRue'', ''tRuE'', ''tRUe'', ''tRUE'',
                       ''True'', ''TruE'', ''TrUe'', ''TrUE'', ''TRue'', ''TRuE'', ''TRUe'', ''TRUE'',
                       ''yes'', ''yeS'', ''yEs'', ''yES'', ''Yes'', ''YeS'', ''YEs'', ''YES'',
                       ''1'', ''t'', ''T'', ''y'', ''Y'', ''on'', ''oN'', ''On'', ''ON''}))" for s
    using yes_texts[of s] by (simp only: to_yesno.simps set_simps)
  have i: "to_yesno lib opts (PStr ''YES'') = Inr (PBool True)"
          "to_yesno lib opts (PStr ''On'') = Inr (PBool True)"
          "to_yesno lib opts (PStr ''1'') = Inr (PBool True)"
          "to_yesno lib opts (PStr ''no'') = Inr (PBool False)"
          "to_yesno lib opts (PStr ''0'') = Inr (PBool False)"
          "to_yesno lib opts (PStr '' yes'') = Inr (PBool False)"
          "to_yesno lib opts (PStr []) = Inr (PBool False)"
    unfolding t by simp_all
  have r: "to_yesno lib opts (PBool b) = Inr (PBool b)"
          "to_yesno lib opts PNone = Inr (PBool False)"
          "to_yesno lib opts (PInt i) = Inr (PBool (i \<noteq> 0))"
          "to_yesno lib opts (PInt 5) = Inr (PBool True)"
          "to_yesno lib opts (PInt 0) = Inr (PBool False)"
          "to_yesno lib opts (PFloat (Float64 w)) = Inr (PBool (take_bit 63 w \<noteq> 0))"
          "to_yesno lib opts (PDecimal (Dec sg c ex)) = Inr (PBool (c \<noteq> 0))"
          "to_yesno lib opts (PBytes bs) = Inr (PBool (bs \<noteq> []))"
          "to_yesno lib opts (PDate dd) = Inr (PBool True)"
          "to_yesno lib opts (PDateTime dt) = Inr (PBool True)"
          "to_yesno lib opts (PList xs) = Inr (PBool (xs \<noteq> []))"
          "to_yesno lib opts (PDict kvs) = Inr (PBool (kvs \<noteq> []))"
    by simp_all
  show ?thesis
    by (intro conjI) (rule t yes_texts i r)+
qed

section \<open>The counters of a run\<close>

lemma sync_loop_counts:
  "sync_loop e cfg rows st w = (st', w') \<Longrightarrow>
     processed st' + errors st' = processed st + errors st + length rows \<and>
     created st' + updated st' + skipped st' + processed st =
       created st + updated st + skipped st + processed st'"
proof (induction rows arbitrary: st w)
  case Nil
  then show ?case by simp
next
  case (Cons r rows)
  obtain res w1 where r: "sync_record e cfg r w = (res, w1)"
    by (cases "sync_record e cfg r w")
  show ?case
  proof (cases res)
    case (Inl ex)
    with Cons.prems r
    have "sync_loop e cfg rows (st\<lparr>errors := errors st + 1\<rparr>) w1 = (st', w')" by simp
    from Cons.IH[OF this] show ?thesis by simp
  next
    case (Inr a)
    with Cons.prems r
    have "sync_loop e cfg rows (count_action a (st\<lparr>processed := processed st + 1\<rparr>)) w1 = (st', w')"
      by simp
    from Cons.IH[OF this] show ?thesis by (cases a) simp_all
  qed
qed

lemma start_clock: "clock (snd (start_sync_run e n w)) = Suc (clock w)"
  by (simp add: start_sync_run_def tick_def Let_def)

lemma start_meta: "sync_metadata (db (snd (start_sync_run e n w))) = sync_metadata (db w)"
  by (simp add: start_sync_run_def tick_def Let_def)

lemma sync_loop_outcomes:
  "sync_loop e cfg rows st w = (st', w') \<Longrightarrow>
     errors st' = errors st + length (filter isl (outcomes e cfg rows w)) \<and>
     processed st' = processed st + length (filter (\<lambda>r. \<not> isl r) (outcomes e cfg rows w))"
proof (induction rows arbitrary: st w)
  case Nil
  then show ?case by simp
next
  case (Cons r rows)
  obtain res w1 where r: "sync_record e cfg r w = (res, w1)"
    by (cases "sync_record e cfg r w")
  show ?case
  proof (cases res)
    case (Inl ex)
    with Cons.prems r
    have "sync_loop e cfg rows (st\<lparr>errors := errors st + 1\<rparr>) w1 = (st', w')" by simp
    from Cons.IH[OF this] r Inl show ?thesis by simp
  next
    case (Inr a)
    with Cons.prems r
    have "sync_loop e cfg rows (count_action a (st\<lparr>processed := processed st + 1\<rparr>)) w1 = (st', w')"
      by simp
    from Cons.IH[OF this] r Inr show ?thesis by (cases a) simp_all
  qed
qed

lemma length_outcomes: "length (outcomes e cfg rows w) = length rows"
  by (induction rows arbitrary: w) (auto split: prod.splits)

lemma sync_loop_actions:
  "sync_loop e cfg rows st w = (st', w') \<Longrightarrow>
     created st' = created st + length (filter (\<lambda>r. r = Inr Created) (outcomes e cfg rows w)) \<and>
     updated st' = updated st + length (filter (\<lambda>r. r = Inr Updated) (outcomes e cfg rows w)) \<and>
     skipped st' = skipped st + length (filter (\<lambda>r. r = Inr Skipped) (outcomes e cfg rows w))"
proof (induction rows arbitrary: st w)
  case Nil
  then show ?case by simp
next
  case (Cons r rows)
  obtain res w1 where r: "sync_record e cfg r w = (res, w1)"
    by (cases "sync_record e cfg r w")
  show ?case
  proof (cases res)
    case (Inl ex)
    with Cons.prems r
    have "sync_loop e cfg rows (st\<lparr>errors := errors st + 1\<rparr>) w1 = (st', w')" by simp
    from Cons.IH[OF this] r Inl show ?thesis by simp
  next
    case (Inr a)
    with Cons.prems r
    have "sync_loop e cfg rows (count_action a (st\<lparr>processed := processed st + 1\<rparr>)) w1 = (st', w')"
      by simp
    from Cons.IH[OF this] r Inr show ?thesis by (cases a) simp_all
  qed
qed

lemma outcomes_ex_three:
  "outcomes (ex_env lib [ex_row, [], ex_row]) ex_cfg [ex_row, [], ex_row]
     (snd (start_sync_run (ex_env lib [ex_row, [], ex_row]) (name ex_cfg) ex_world)) =
   [Inr Created, Inl KeyError, Inr Skipped]"
  by (simp add: run_simps ex_env_def ex_world_def map_ex ex_cfg_sel ex_row_key)

text \<open>
  C9. In the counters a run returns, \<open>processed = created + updated + skipped\<close>. A
  record whose reconciliation raised is counted in \<open>errors\<close> and nowhere else:
  \<open>errors\<close> is the number of rows whose reconciliation raised, \<open>processed\<close> the
  number of rows whose reconciliation returned, and \<open>created\<close>, \<open>updated\<close> and
  \<open>skipped\<close> the numbers of rows that returned that action; so \<open>processed\<close> and
  \<open>errors\<close> add up to the number of rows the source query returned.
\<close>

theorem counter_consistency:
  assumes "sync e cfg w = (Inr st, w')"
  shows "\<exists>rows. execute_query e (Suc (clock w)) (query cfg)
                  (get_last_sync_time (db w) (name cfg)) = Inr rows
           \<and> processed st + errors st = length rows
           \<and> processed st = created st + updated st + skipped st
           \<and> length (outcomes e cfg rows (snd (start_sync_run e (name cfg) w))) = length rows
           \<and> errors st =
               length (filter isl (outcomes e cfg rows (snd (start_sync_run e (name cfg) w))))
           \<and> processed st =
               length (filter (\<lambda>r. \<not> isl r) (outcomes e cfg rows (snd (start_sync_run e (name cfg) w))))
           \<and> created st =
               length (filter (\<lambda>r. r = Inr Created)
                         (outcomes e cfg rows (snd (start_sync_run e (name cfg) w))))
           \<and> updated st =
               length (filter (\<lambda>r. r = Inr Updated)
                         (outcomes e cfg rows (snd (start_sync_run e (name cfg) w))))
           \<and> skipped st =
               length (filter (\<lambda>r. r = Inr Skipped)
                         (outcomes e cfg rows (snd (start_sync_run e (name cfg) w))))"
proof -
  obtain r0 w1 where s: "start_sync_run e (name cfg) w = (r0, w1)"
    by (cases "start_sync_run e (name cfg) w")
  have w1: "snd (start_sync_run e (name cfg) w) = w1" using s by simp
  have c: "clock w1 = Suc (clock w)" using start_clock[of e "name cfg" w] s by simp
  have m: "get_last_sync_time (db w1) (name cfg) = get_last_sync_time (db w) (name cfg)"
    using start_meta[of e "name cfg" w] s by (simp add: get_last_sync_time_def)
  from assms s obtain rid where rid: "r0 = Inr rid"
    by (cases r0) (auto simp: sync_def)
  from assms s rid c m obtain rows where
    q: "execute_query e (Suc (clock w)) (query cfg) (get_last_sync_time (db w) (name cfg)) = Inr rows"
    by (cases "execute_query e (Suc (clock w)) (query cfg) (get_last_sync_time (db w) (name cfg))")
       (auto simp: sync_def Let_def)
  show ?thesis
  proof (cases "rows = []")
    case True
    with assms s rid c m q have "st = zero_stats" by (auto simp: sync_def Let_def)
    with True q show ?thesis by (auto simp: zero_stats_def)
  next
    case False
    obtain st2 w2 where l: "sync_loop e cfg rows zero_stats w1 = (st2, w2)"
      by (cases "sync_loop e cfg rows zero_stats w1")
    with assms s rid c m q False have st: "st = st2" by (auto simp: sync_def Let_def)
    from sync_loop_counts[OF l] sync_loop_outcomes[OF l] sync_loop_actions[OF l]
      length_outcomes[of e cfg rows w1] q
    show ?thesis unfolding st w1 by (auto simp: zero_stats_def)
  qed
qed

theorem counter_consistency_witness:
  "\<forall>lib. fst (sync (ex_env lib [ex_row, [], ex_row]) ex_cfg ex_world) =
            Inr \<lparr>processed = 2, created = 1, updated = 0, skipped = 1, errors = 1\<rparr>
     \<and> outcomes (ex_env lib [ex_row, [], ex_row]) ex_cfg [ex_row, [], ex_row]
          (snd (start_sync_run (ex_env lib [ex_row, [], ex_row]) (name ex_cfg) ex_world)) =
        [Inr Created, Inl KeyError, Inr Skipped]
     \<and> (\<exists>rows. execute_query (ex_env lib [ex_row, [], ex_row]) (Suc (clock ex_world)) (query ex_cfg)
                  (get_last_sync_time (db ex_world) (name ex_cfg)) = Inr rows
           \<and> (2::nat) + 1 = length rows \<and> (2::nat) = 1 + 0 + 1
           \<and> (1::nat) = length (filter isl
                 (outcomes (ex_env lib [ex_row, [], ex_row]) ex_cfg rows
                    (snd (start_sync_run (ex_env lib [ex_row, [], ex_row]) (name ex_cfg) ex_world))))
           \<and> (2::nat) = length (filter (\<lambda>r. \<not> isl r)
                 (outcomes (ex_env lib [ex_row, [], ex_row]) ex_cfg rows
                    (snd (start_sync_run (ex_env lib [ex_row, [], ex_row]) (name ex_cfg) ex_world)))))"
proof
  fix lib
  let ?S = "\<lparr>processed = 2, created = 1, updated = 0, skipped = 1, errors = 1\<rparr>"
  let ?E = "ex_env lib [ex_row, [], ex_row]"
  have h: "sync ?E ex_cfg ex_world = (Inr ?S, snd (sync ?E ex_cfg ex_world))"
    using sync_ex_three[of lib] by (simp add: prod_eq_iff)
  from counter_consistency[OF h] obtain rows where
    r: "execute_query ?E (Suc (clock ex_world)) (query ex_cfg)
          (get_last_sync_time (db ex_world) (name ex_cfg)) = Inr rows"
       "processed ?S + errors ?S = length rows"
       "processed ?S = created ?S + updated ?S + skipped ?S"
       "errors ?S = length (filter isl (outcomes ?E ex_cfg rows (snd (start_sync_run ?E (name ex_cfg) ex_world))))"
       "processed ?S = length (filter (\<lambda>r. \<not> isl r)
                          (outcomes ?E ex_cfg rows (snd (start_sync_run ?E (name ex_cfg) ex_world))))"
    by blast
  from r have "\<exists>rows. execute_query ?E (Suc (clock ex_world)) (query ex_cfg)
                  (get_last_sync_time (db ex_world) (name ex_cfg)) = Inr rows
           \<and> (2::nat) + 1 = length rows \<and> (2::nat) = 1 + 0 + 1
           \<and> (1::nat) = length (filter isl
                 (outcomes ?E ex_cfg rows (snd (start_sync_run ?E (name ex_cfg) ex_world))))
           \<and> (2::nat) = length (filter (\<lambda>r. \<not> isl r)
                 (outcomes ?E ex_cfg rows (snd (start_sync_run ?E (name ex_cfg) ex_world))))"
    by (intro exI[of _ rows]) simp
  with sync_ex_three[of lib] outcomes_ex_three[of lib]
  show "fst (sync ?E ex_cfg ex_world) = Inr ?S
     \<and> outcomes ?E ex_cfg [ex_row, [], ex_row] (snd (start_sync_run ?E (name ex_cfg) ex_world)) =
        [Inr Created, Inl KeyError, Inr Skipped]
     \<and> (\<exists>rows. execute_query ?E (Suc (clock ex_world)) (query ex_cfg)
                  (get_last_sync_time (db ex_world) (name ex_cfg)) = Inr rows
           \<and> (2::nat) + 1 = length rows \<and> (2::nat) = 1 + 0 + 1
           \<and> (1::nat) = length (filter isl
                 (outcomes ?E ex_cfg rows (snd (start_sync_run ?E (name ex_cfg) ex_world))))
           \<and> (2::nat) = length (filter (\<lambda>r. \<not> isl r)
                 (outcomes ?E ex_cfg rows (snd (start_sync_run ?E (name ex_cfg) ex_world)))))"
    by blast
qed

section \<open>The empty fetch and the isolation of record faults\<close>

lemma sync_empty:
  assumes start: "\<not> list_ex (\<lambda>r. run_sync_name r = name cfg \<and> started_at r = utcnow e (clock w)) (sync_runs (db w))"
      and fetch: "execute_query e (Suc (clock w)) (query cfg) (get_last_sync_time (db w) (name cfg)) = Inr []"
  shows "sync e cfg w =
     (Inr zero_stats,
      complete_sync_run e (Suc (length (sync_runs (db w)))) ''success'' 0 0 0 0 None
        (snd (start_sync_run e (name cfg) w)))"
  using assms by (simp add: sync_def start_sync_run_def Let_def tick_def get_last_sync_time_def)

lemma complete_last:
  assumes "sync_runs (db w) \<noteq> []" "run_id (last (sync_runs (db w))) = rid"
  shows "last (sync_runs (db (complete_sync_run e rid st p c u s err w))) =
     (last (sync_runs (db w)))\<lparr>completed_at := Some (utcnow e (clock w)), status := st,
        records_processed := p, records_created := c, records_updated := u,
        records_skipped := s, error_message := err\<rparr>"
  using assms by (simp add: complete_sync_run_def tick_def last_map)

lemma complete_frame:
  "sync_metadata (db (complete_sync_run e rid st p c u s err w)) = sync_metadata (db w)"
  "record_mappings (db (complete_sync_run e rid st p c u s err w)) = record_mappings (db w)"
  "dest_calls (complete_sync_run e rid st p c u s err w) = dest_calls w"
  by (simp_all add: complete_sync_run_def tick_def)

lemma start_ok:
  assumes "\<not> list_ex (\<lambda>r. run_sync_name r = n \<and> started_at r = utcnow e (clock w)) (sync_runs (db w))"
  shows "fst (start_sync_run e n w) = Inr (Suc (length (sync_runs (db w))))"
    and "sync_runs (db (snd (start_sync_run e n w))) \<noteq> []"
    and "run_id (last (sync_runs (db (snd (start_sync_run e n w))))) = Suc (length (sync_runs (db w)))"
    and "run_sync_name (last (sync_runs (db (snd (start_sync_run e n w))))) = n"
    and "record_mappings (db (snd (start_sync_run e n w))) = record_mappings (db w)"
    and "dest_calls (snd (start_sync_run e n w)) = dest_calls w"
  using assms by (simp_all add: start_sync_run_def Let_def tick_def)

lemma empty_run:
  assumes start: "\<not> list_ex (\<lambda>r. run_sync_name r = name cfg \<and> started_at r = utcnow e (clock w)) (sync_runs (db w))"
      and fetch: "execute_query e (Suc (clock w)) (query cfg) (get_last_sync_time (db w) (name cfg)) = Inr []"
  shows "\<exists>w'. sync e cfg w = (Inr zero_stats, w')
           \<and> run_sync_name (last (sync_runs (db w'))) = name cfg
           \<and> status (last (sync_runs (db w'))) = ''success''
           \<and> records_processed (last (sync_runs (db w'))) = 0
           \<and> records_created (last (sync_runs (db w'))) = 0
           \<and> records_updated (last (sync_runs (db w'))) = 0
           \<and> records_skipped (last (sync_runs (db w'))) = 0
           \<and> sync_metadata (db w') = sync_metadata (db w)
           \<and> record_mappings (db w') = record_mappings (db w)
           \<and> dest_calls w' = dest_calls w"
proof -
  let ?w1 = "snd (start_sync_run e (name cfg) w)"
  let ?w' = "complete_sync_run e (Suc (length (sync_runs (db w)))) ''success'' 0 0 0 0 None ?w1"
  have s: "sync e cfg w = (Inr zero_stats, ?w')" by (rule sync_empty[OF assms])
  have l: "last (sync_runs (db ?w')) =
     (last (sync_runs (db ?w1)))\<lparr>completed_at := Some (utcnow e (clock ?w1)), status := ''success'',
        records_processed := 0, records_created := 0, records_updated := 0,
        records_skipped := 0, error_message := None\<rparr>"
    by (rule complete_last[OF start_ok(2)[OF start] start_ok(3)[OF start]])
  show ?thesis
    using s l start_ok(4,5,6)[OF start] start_meta[of e "name cfg" w]
    by (simp add: complete_frame)
qed


text \<open>
  C8, as the code has it. When the source query returns no rows the run ends with
  all counters zero and its run row marked \<open>success\<close> with zero counts; the branch
  returns before \<open>update_last_sync_time\<close>, so the last-sync boundary (and the whole
  \<open>sync_metadata\<close> table) is left as it was, as are the record mappings, and no
  destination call is made.
\<close>

theorem empty_fetch_finalization:
  assumes "\<not> list_ex (\<lambda>r. run_sync_name r = name cfg \<and> started_at r = utcnow e (clock w)) (sync_runs (db w))"
      and "execute_query e (Suc (clock w)) (query cfg) (get_last_sync_time (db w) (name cfg)) = Inr []"
  shows "\<exists>w'. sync e cfg w = (Inr zero_stats, w')
           \<and> run_sync_name (last (sync_runs (db w'))) = name cfg
           \<and> status (last (sync_runs (db w'))) = ''success''
           \<and> records_processed (last (sync_runs (db w'))) = 0
           \<and> records_created (last (sync_runs (db w'))) = 0
           \<and> records_updated (last (sync_runs (db w'))) = 0
           \<and> records_skipped (last (sync_runs (db w'))) = 0
           \<and> sync_metadata (db w') = sync_metadata (db w)
           \<and> record_mappings (db w') = record_mappings (db w)
           \<and> dest_calls w' = dest_calls w"
  using assms by (rule empty_run)

lemma sync_ex_empty:
  "sync (ex_env lib []) ex_cfg ex_world =
     (Inr zero_stats,
      \<lparr>db = \<lparr>sync_runs = [\<lparr>run_id = 1, run_sync_name = ''orders'', started_at = ''0'',
                 completed_at = Some ''1'', status = ''success'', records_processed = 0,
                 records_created = 0, records_updated = 0, records_skipped = 0,
                 error_message = None\<rparr>],
              record_mappings = (\<lambda>k. None), sync_metadata = (\<lambda>k. None)\<rparr>,
       dest_calls = [], clock = 2\<rparr>)"
  by (simp add: run_simps ex_env_def ex_world_def ex_cfg_sel digit_char_def char_of_def bit_Suc_0_iff)

text \<open>
  C8 as stated fails: on an empty fetch the run is marked \<open>success\<close> and the
  last-sync boundary of the sync is still absent afterwards.
\<close>

theorem empty_fetch_boundary_counterexample:
  "\<forall>lib. fst (sync (ex_env lib []) ex_cfg ex_world) = Inr zero_stats
     \<and> status (last (sync_runs (db (snd (sync (ex_env lib []) ex_cfg ex_world))))) = ''success''
     \<and> get_last_sync_time (db ex_world) ''orders'' = None
     \<and> get_last_sync_time (db (snd (sync (ex_env lib []) ex_cfg ex_world))) ''orders'' = None"
proof (intro allI conjI)
  fix lib
  show "fst (sync (ex_env lib []) ex_cfg ex_world) = Inr zero_stats"
    by (simp add: sync_ex_empty)
  show "status (last (sync_runs (db (snd (sync (ex_env lib []) ex_cfg ex_world))))) = ''success''"
    by (simp add: sync_ex_empty)
  show "get_last_sync_time (db ex_world) ''orders'' = None"
    by (simp add: get_last_sync_time_def ex_world_def)
  show "get_last_sync_time (db (snd (sync (ex_env lib []) ex_cfg ex_world))) ''orders'' = None"
    by (simp add: sync_ex_empty get_last_sync_time_def)
qed

theorem empty_fetch_finalization_witness:
  "\<forall>lib. \<not> list_ex (\<lambda>r. run_sync_name r = name ex_cfg \<and> started_at r = utcnow (ex_env lib []) (clock ex_world))
              (sync_runs (db ex_world))
     \<and> execute_query (ex_env lib []) (Suc (clock ex_world)) (query ex_cfg)
          (get_last_sync_time (db ex_world) (name ex_cfg)) = Inr []
     \<and> (\<exists>w'. sync (ex_env lib []) ex_cfg ex_world = (Inr zero_stats, w')
           \<and> run_sync_name (last (sync_runs (db w'))) = name ex_cfg
           \<and> status (last (sync_runs (db w'))) = ''success''
           \<and> records_processed (last (sync_runs (db w'))) = 0
           \<and> records_created (last (sync_runs (db w'))) = 0
           \<and> records_updated (last (sync_runs (db w'))) = 0
           \<and> records_skipped (last (sync_runs (db w'))) = 0
           \<and> sync_metadata (db w') = sync_metadata (db ex_world)
           \<and> record_mappings (db w') = record_mappings (db ex_world)
           \<and> dest_calls w' = dest_calls ex_world)"
proof
  fix lib
  have a: "\<not> list_ex (\<lambda>r. run_sync_name r = name ex_cfg \<and> started_at r = utcnow (ex_env lib []) (clock ex_world))
              (sync_runs (db ex_world))"
    by (simp add: ex_world_def)
  have b: "execute_query (ex_env lib []) (Suc (clock ex_world)) (query ex_cfg)
          (get_last_sync_time (db ex_world) (name ex_cfg)) = Inr []"
    by (simp add: ex_env_def)
  from empty_fetch_finalization[OF a b] a b
  show "\<not> list_ex (\<lambda>r. run_sync_name r = name ex_cfg \<and> started_at r = utcnow (ex_env lib []) (clock ex_world))
              (sync_runs (db ex_world))
     \<and> execute_query (ex_env lib []) (Suc (clock ex_world)) (query ex_cfg)
          (get_last_sync_time (db ex_world) (name ex_cfg)) = Inr []
     \<and> (\<exists>w'. sync (ex_env lib []) ex_cfg ex_world = (Inr zero_stats, w')
           \<and> run_sync_name (last (sync_runs (db w'))) = name ex_cfg
           \<and> status (last (sync_runs (db w'))) = ''success''
           \<and> records_processed (last (sync_runs (db w'))) = 0
           \<and> records_created (last (sync_runs (db w'))) = 0
           \<and> records_updated (last (sync_runs (db w'))) = 0
           \<and> records_skipped (last (sync_runs (db w'))) = 0
           \<and> sync_metadata (db w') = sync_metadata (db ex_world)
           \<and> record_mappings (db w') = record_mappings (db ex_world)
           \<and> dest_calls w' = dest_calls ex_world)"
    by blast
qed

lemma update_last_frame:
  "sync_runs (db (update_last_sync_time e n t w)) = sync_runs (db w)"
  by (simp add: update_last_sync_time_def tick_def)

lemma sync_record_runs: "sync_runs (db (snd (sync_record e cfg r w))) = sync_runs (db w)"
  by (auto simp: sync_record_def save_record_mapping_def tick_def Let_def
      split: option.splits sum.splits prod.splits if_splits)

lemma sync_loop_runs: "sync_runs (db (snd (sync_loop e cfg rows st w))) = sync_runs (db w)"
proof (induction rows arbitrary: st w)
  case Nil
  show ?case by simp
next
  case (Cons r rows)
  obtain res w1 where r: "sync_record e cfg r w = (res, w1)"
    by (cases "sync_record e cfg r w")
  with sync_record_runs[of e cfg r w] have "sync_runs (db w1) = sync_runs (db w)" by simp
  with r Cons.IH show ?case by (cases res) simp_all
qed

text \<open>
  C7. Whatever \<open>_sync_record\<close> raises on a record is caught in the loop: it adds one
  to \<open>errors\<close> and the loop goes on with the next record from the world the failed
  record left. Every row of the batch is attempted, \<open>errors\<close> counts the rows that
  raised and \<open>processed\<close> the others, and the run returns its counters with its run
  row marked \<open>success\<close>.
\<close>

theorem record_fault_isolation:
  assumes start: "\<not> list_ex (\<lambda>r. run_sync_name r = name cfg \<and> started_at r = utcnow e (clock w)) (sync_runs (db w))"
      and fetch: "execute_query e (Suc (clock w)) (query cfg) (get_last_sync_time (db w) (name cfg)) = Inr rows"
  shows "\<exists>st w'. sync e cfg w = (Inr st, w')
           \<and> status (last (sync_runs (db w'))) = ''success''
           \<and> length (outcomes e cfg rows (snd (start_sync_run e (name cfg) w))) = length rows
           \<and> errors st = length (filter isl (outcomes e cfg rows (snd (start_sync_run e (name cfg) w))))
           \<and> processed st =
               length (filter (\<lambda>r. \<not> isl r) (outcomes e cfg rows (snd (start_sync_run e (name cfg) w))))
           \<and> (\<forall>r rest st0 v ex v1. sync_record e cfg r v = (Inl ex, v1) \<longrightarrow>
                 sync_loop e cfg (r # rest) st0 v =
                 sync_loop e cfg rest (st0\<lparr>errors := errors st0 + 1\<rparr>) v1)"
proof (cases "rows = []")
  case True
  from empty_run[OF start fetch[unfolded True]] True
  show ?thesis by (auto simp: zero_stats_def)
next
  case False
  let ?rid = "Suc (length (sync_runs (db w)))"
  obtain w1 where s0: "start_sync_run e (name cfg) w = (Inr ?rid, w1)"
    using start_ok(1)[OF start] by (cases "start_sync_run e (name cfg) w") simp
  have w1: "snd (start_sync_run e (name cfg) w) = w1" using s0 by simp
  obtain st w2 where l: "sync_loop e cfg rows zero_stats w1 = (st, w2)"
    by (cases "sync_loop e cfg rows zero_stats w1")
  let ?w3 = "update_last_sync_time e (name cfg) (utcnow e (clock w2)) (tick w2)"
  let ?w4 = "complete_sync_run e ?rid ''success'' (processed st) (created st) (updated st) (skipped st) None ?w3"
  have c: "clock w1 = Suc (clock w)" using start_clock[of e "name cfg" w] w1 by simp
  have m: "get_last_sync_time (db w1) (name cfg) = get_last_sync_time (db w) (name cfg)"
    using start_meta[of e "name cfg" w] w1 by (simp add: get_last_sync_time_def)
  have s: "sync e cfg w = (Inr st, ?w4)"
    using s0 fetch False l c m by (simp add: sync_def Let_def)
  have r2: "sync_runs (db w2) = sync_runs (db w1)"
    using sync_loop_runs[of e cfg rows zero_stats w1] l by simp
  have r3: "sync_runs (db ?w3) = sync_runs (db w1)"
    using r2 by (simp add: update_last_frame tick_def)
  have "status (last (sync_runs (db ?w4))) = ''success''"
    using complete_last[of ?w3 ?rid e] r3 start_ok(2,3)[OF start] w1 by simp
  with s sync_loop_outcomes[OF l] length_outcomes[of e cfg rows w1] w1
  show ?thesis by (auto simp: zero_stats_def)
qed

lemma map_ex2:
  "map_record lib ex_cfg ex_row2 = Inr [(''ext_id'', PStr ''8''), (''is_paid'', PBool False)]"
  by (simp add: ex_cfg_def ex_row2_def conv_simps)

lemma ex_row2_key: "map_of ex_row2 ''id'' = Some (PInt 8)"
  by (simp add: ex_row2_def)

lemma outcomes_ex_faulty:
  "outcomes (ex_env_faulty lib [ex_row, ex_row2]) ex_cfg [ex_row, ex_row2]
     (snd (start_sync_run (ex_env_faulty lib [ex_row, ex_row2]) (name ex_cfg) ex_world)) =
   [Inl (Fault ''503 Service Unavailable''), Inr Created]"
  by (simp add: run_simps ex_env_faulty_def ex_world_def map_ex map_ex2 ex_cfg_sel ex_row_key
      ex_row2_key)

theorem record_fault_isolation_witness:
  "\<forall>lib.
     \<not> list_ex (\<lambda>r. run_sync_name r = name ex_cfg
                      \<and> started_at r = utcnow (ex_env_faulty lib [ex_row, ex_row2]) (clock ex_world))
          (sync_runs (db ex_world))
   \<and> execute_query (ex_env_faulty lib [ex_row, ex_row2]) (Suc (clock ex_world)) (query ex_cfg)
        (get_last_sync_time (db ex_world) (name ex_cfg)) = Inr [ex_row, ex_row2]
   \<and> outcomes (ex_env_faulty lib [ex_row, ex_row2]) ex_cfg [ex_row, ex_row2]
        (snd (start_sync_run (ex_env_faulty lib [ex_row, ex_row2]) (name ex_cfg) ex_world)) =
       [Inl (Fault ''503 Service Unavailable''), Inr Created]
   \<and> (\<exists>st w'. sync (ex_env_faulty lib [ex_row, ex_row2]) ex_cfg ex_world = (Inr st, w')
          \<and> status (last (sync_runs (db w'))) = ''success''
          \<and> errors st = 1 \<and> processed st = 1)"
proof
  fix lib
  let ?e = "ex_env_faulty lib [ex_row, ex_row2]"
  have a: "\<not> list_ex (\<lambda>r. run_sync_name r = name ex_cfg \<and> started_at r = utcnow ?e (clock ex_world))
              (sync_runs (db ex_world))"
    by (simp add: ex_world_def)
  have b: "execute_query ?e (Suc (clock ex_world)) (query ex_cfg)
             (get_last_sync_time (db ex_world) (name ex_cfg)) = Inr [ex_row, ex_row2]"
    by (simp add: ex_env_faulty_def)
  from record_fault_isolation[OF a b] obtain st w' where
    r: "sync ?e ex_cfg ex_world = (Inr st, w')"
       "status (last (sync_runs (db w'))) = ''success''"
       "errors st = length (filter isl (outcomes ?e ex_cfg [ex_row, ex_row2]
                      (snd (start_sync_run ?e (name ex_cfg) ex_world))))"
       "processed st = length (filter (\<lambda>r. \<not> isl r) (outcomes ?e ex_cfg [ex_row, ex_row2]
                      (snd (start_sync_run ?e (name ex_cfg) ex_world))))"
    by blast
  have "errors st = 1" "processed st = 1"
    using r(3,4) unfolding outcomes_ex_faulty by simp_all
  with r(1,2) a b outcomes_ex_faulty[of lib]
  show "\<not> list_ex (\<lambda>r. run_sync_name r = name ex_cfg
                      \<and> started_at r = utcnow ?e (clock ex_world))
          (sync_runs (db ex_world))
   \<and> execute_query ?e (Suc (clock ex_world)) (query ex_cfg)
        (get_last_sync_time (db ex_world) (name ex_cfg)) = Inr [ex_row, ex_row2]
   \<and> outcomes ?e ex_cfg [ex_row, ex_row2] (snd (start_sync_run ?e (name ex_cfg) ex_world)) =
       [Inl (Fault ''503 Service Unavailable''), Inr Created]
   \<and> (\<exists>st w'. sync ?e ex_cfg ex_world = (Inr st, w')
          \<and> status (last (sync_runs (db w'))) = ''success''
          \<and> errors st = 1 \<and> processed st = 1)"
    by blast
qed

section \<open>The transitions of one record\<close>


lemma length_hex_digits: "length (hex_digits n v) = n"
  by (induction n arbitrary: v) simp_all

lemma length_calculate_hash: "length (calculate_hash lib p) = 64"
  by (simp add: calculate_hash_def hexdigest_def length_hex_digits)

text \<open>
  C2. For a record whose primary key is present and whose mapping succeeds: with
  no stored mapping and a destination that accepts the create, \<open>_sync_record\<close>
  makes that one create call, upserts one mapping with the returned identifier and
  the fingerprint, and answers \<open>created\<close>; with a stored mapping of the same
  fingerprint it answers \<open>skipped\<close> and leaves the world untouched; with a stored
  mapping of another fingerprint and a destination that accepts the update, it makes
  that one update call on the stored identifier, upserts the mapping with the new
  fingerprint and the identifier unchanged, and answers \<open>updated\<close>.
\<close>

theorem reconciliation_transitions:
  assumes key: "map_of r (primary_key cfg) = Some pk"
      and mapped: "map_record (py e) cfg r = Inr payload"
  shows "(get_record_mapping (db w) (name cfg) (py_str (py e) pk) = None
          \<and> create_record e (dest_calls w) (table_id cfg) payload = Inr (TextId rid)
          \<longrightarrow> sync_record e cfg r w =
               (Inr Created,
                w\<lparr>dest_calls := dest_calls w @ [Create (table_id cfg) payload],
                  clock := Suc (clock w),
                  db := (db w)\<lparr>record_mappings := (record_mappings (db w))
                     ((name cfg, py_str (py e) pk) \<mapsto>
                        \<lparr>smartsuite_record_id = rid, data_hash = calculate_hash (py e) payload,
                         created_at = utcnow e (clock w), updated_at = utcnow e (clock w)\<rparr>)\<rparr>\<rparr>))
       \<and> (\<forall>m. get_record_mapping (db w) (name cfg) (py_str (py e) pk) = Some m
               \<and> data_hash m = calculate_hash (py e) payload
          \<longrightarrow> sync_record e cfg r w = (Inr Skipped, w))
       \<and> (\<forall>m. get_record_mapping (db w) (name cfg) (py_str (py e) pk) = Some m
               \<and> data_hash m \<noteq> calculate_hash (py e) payload
               \<and> update_record e (dest_calls w) (table_id cfg) (smartsuite_record_id m) payload = None
          \<longrightarrow> sync_record e cfg r w =
               (Inr Updated,
                w\<lparr>dest_calls := dest_calls w @ [Update (table_id cfg) (smartsuite_record_id m) payload],
                  clock := Suc (clock w),
                  db := (db w)\<lparr>record_mappings := (record_mappings (db w))
                     ((name cfg, py_str (py e) pk) \<mapsto>
                        m\<lparr>data_hash := calculate_hash (py e) payload,
                          updated_at := utcnow e (clock w)\<rparr>)\<rparr>\<rparr>))"
  using key mapped
  by (simp add: sync_record_def Let_def save_record_mapping_def tick_def get_record_mapping_def)


lemma ex_env_sel:
  "py (ex_env lib rows) = lib" "utcnow (ex_env lib rows) = nat_str"
  "execute_query (ex_env lib rows) t q l = Inr rows"
  "create_record (ex_env lib rows) h tb p = Inr (TextId (nat_str (length h)))"
  "update_record (ex_env lib rows) h tb rid p = None"
  by (simp_all add: ex_env_def)

lemma nat_str_small: "nat_str 0 = ''0''" "nat_str 1 = ''1''" "nat_str 5 = ''5''"
  by (simp_all add: digit_char_def char_of_def bit_Suc_0_iff)

lemma int_str_7: "int_str 7 = ''7''"
  by (simp add: int_str_def digit_char_def char_of_def bit_Suc_0_iff)

lemma map_ex_payload: "map_record lib ex_cfg ex_row = Inr ex_payload"
  by (simp add: map_ex ex_payload_def)

theorem reconciliation_transitions_witness:
  "\<forall>lib.
     map_of ex_row (primary_key ex_cfg) = Some (PInt 7)
   \<and> map_record (py (ex_env lib [])) ex_cfg ex_row = Inr ex_payload
   \<and> get_record_mapping (db ex_world) (name ex_cfg) (py_str (py (ex_env lib [])) (PInt 7)) = None
   \<and> create_record (ex_env lib []) (dest_calls ex_world) (table_id ex_cfg) ex_payload = Inr (TextId ''0'')
   \<and> fst (sync_record (ex_env lib []) ex_cfg ex_row ex_world) = Inr Created
   \<and> dest_calls (snd (sync_record (ex_env lib []) ex_cfg ex_row ex_world)) = [Create ''tbl'' ex_payload]
   \<and> map_option smartsuite_record_id
        (get_record_mapping (db (snd (sync_record (ex_env lib []) ex_cfg ex_row ex_world))) ''orders'' ''7'')
       = Some ''0''
   \<and> map_option data_hash
        (get_record_mapping (db (ex_world_with (calculate_hash lib ex_payload))) ''orders'' ''7'')
       = Some (calculate_hash lib ex_payload)
   \<and> sync_record (ex_env lib []) ex_cfg ex_row (ex_world_with (calculate_hash lib ex_payload))
       = (Inr Skipped, ex_world_with (calculate_hash lib ex_payload))
   \<and> map_option data_hash (get_record_mapping (db (ex_world_with ''stale'')) ''orders'' ''7'') = Some ''stale''
   \<and> ''stale'' \<noteq> calculate_hash lib ex_payload
   \<and> update_record (ex_env lib []) (dest_calls (ex_world_with ''stale'')) (table_id ex_cfg) ''rec1'' ex_payload = None
   \<and> fst (sync_record (ex_env lib []) ex_cfg ex_row (ex_world_with ''stale'')) = Inr Updated
   \<and> dest_calls (snd (sync_record (ex_env lib []) ex_cfg ex_row (ex_world_with ''stale'')))
       = [Update ''tbl'' ''rec1'' ex_payload]
   \<and> map_option smartsuite_record_id
        (get_record_mapping (db (snd (sync_record (ex_env lib []) ex_cfg ex_row (ex_world_with ''stale''))))
           ''orders'' ''7'')
       = Some ''rec1''"
proof
  fix lib
  let ?e = "ex_env lib []"
  let ?h = "calculate_hash lib ex_payload"
  have key: "map_of ex_row (primary_key ex_cfg) = Some (PInt 7)"
    by (simp add: ex_cfg_sel ex_row_key)
  have mapped: "map_record (py ?e) ex_cfg ex_row = Inr ex_payload"
    by (simp add: ex_env_sel map_ex_payload)
  have ne: "''stale'' \<noteq> ?h"
  proof
    assume "''stale'' = ?h"
    then have "length ''stale'' = length ?h" by simp
    then show False by (simp add: length_calculate_hash)
  qed
  have g0: "get_record_mapping (db ex_world) (name ex_cfg) (py_str (py ?e) (PInt 7)) = None"
    by (simp add: get_record_mapping_def ex_world_def)
  have c0: "create_record ?e (dest_calls ex_world) (table_id ex_cfg) ex_payload = Inr (TextId ''0'')"
    by (simp add: ex_env_sel ex_world_def digit_char_def char_of_def bit_Suc_0_iff)
  have g1: "get_record_mapping (db (ex_world_with ?h)) (name ex_cfg) (py_str (py ?e) (PInt 7)) =
      Some \<lparr>smartsuite_record_id = ''rec1'', data_hash = ?h, created_at = ''0'', updated_at = ''0''\<rparr>"
    by (simp add: get_record_mapping_def ex_world_with_def ex_cfg_sel ex_env_sel int_str_7)
  have g2: "get_record_mapping (db (ex_world_with ''stale'')) (name ex_cfg) (py_str (py ?e) (PInt 7)) =
      Some \<lparr>smartsuite_record_id = ''rec1'', data_hash = ''stale'', created_at = ''0'', updated_at = ''0''\<rparr>"
    by (simp add: get_record_mapping_def ex_world_with_def ex_cfg_sel ex_env_sel int_str_7)
  have u2: "update_record ?e (dest_calls (ex_world_with ''stale'')) (table_id ex_cfg) ''rec1'' ex_payload = None"
    by (simp add: ex_env_sel)
  have t1: "sync_record ?e ex_cfg ex_row ex_world =
      (Inr Created,
       ex_world\<lparr>dest_calls := dest_calls ex_world @ [Create (table_id ex_cfg) ex_payload],
                clock := Suc (clock ex_world),
                db := (db ex_world)\<lparr>record_mappings := (record_mappings (db ex_world))
                   ((name ex_cfg, py_str (py ?e) (PInt 7)) \<mapsto>
                      \<lparr>smartsuite_record_id = ''0'', data_hash = calculate_hash (py ?e) ex_payload,
                       created_at = utcnow ?e (clock ex_world),
                       updated_at = utcnow ?e (clock ex_world)\<rparr>)\<rparr>\<rparr>)"
    using reconciliation_transitions[OF key mapped, of ex_world "''0''"] g0 c0 by blast
  have t2: "sync_record ?e ex_cfg ex_row (ex_world_with ?h) = (Inr Skipped, ex_world_with ?h)"
    using reconciliation_transitions[OF key mapped, of "ex_world_with ?h"] g1 by (simp add: ex_env_sel)
  have t3: "sync_record ?e ex_cfg ex_row (ex_world_with ''stale'') =
      (Inr Updated,
       (ex_world_with ''stale'')\<lparr>dest_calls := dest_calls (ex_world_with ''stale'') @
                    [Update (table_id ex_cfg) ''rec1'' ex_payload],
                clock := Suc (clock (ex_world_with ''stale'')),
                db := (db (ex_world_with ''stale''))\<lparr>record_mappings :=
                   (record_mappings (db (ex_world_with ''stale'')))
                   ((name ex_cfg, py_str (py ?e) (PInt 7)) \<mapsto>
                      \<lparr>smartsuite_record_id = ''rec1'', data_hash = ''stale'', created_at = ''0'',
                       updated_at = ''0''\<rparr>\<lparr>data_hash := calculate_hash (py ?e) ex_payload,
                          updated_at := utcnow ?e (clock (ex_world_with ''stale''))\<rparr>)\<rparr>\<rparr>)"
    using reconciliation_transitions[OF key mapped, of "ex_world_with ''stale''"] g2 u2 ne
    by (simp add: ex_env_sel)
  show "map_of ex_row (primary_key ex_cfg) = Some (PInt 7)
   \<and> map_record (py (ex_env lib [])) ex_cfg ex_row = Inr ex_payload
   \<and> get_record_mapping (db ex_world) (name ex_cfg) (py_str (py (ex_env lib [])) (PInt 7)) = None
   \<and> create_record (ex_env lib []) (dest_calls ex_world) (table_id ex_cfg) ex_payload = Inr (TextId ''0'')
   \<and> fst (sync_record (ex_env lib []) ex_cfg ex_row ex_world) = Inr Created
   \<and> dest_calls (snd (sync_record (ex_env lib []) ex_cfg ex_row ex_world)) = [Create ''tbl'' ex_payload]
   \<and> map_option smartsuite_record_id
        (get_record_mapping (db (snd (sync_record (ex_env lib []) ex_cfg ex_row ex_world))) ''orders'' ''7'')
       = Some ''0''
   \<and> map_option data_hash
        (get_record_mapping (db (ex_world_with (calculate_hash lib ex_payload))) ''orders'' ''7'')
       = Some (calculate_hash lib ex_payload)
   \<and> sync_record (ex_env lib []) ex_cfg ex_row (ex_world_with (calculate_hash lib ex_payload))
       = (Inr Skipped, ex_world_with (calculate_hash lib ex_payload))
   \<and> map_option data_hash (get_record_mapping (db (ex_world_with ''stale'')) ''orders'' ''7'') = Some ''stale''
   \<and> ''stale'' \<noteq> calculate_hash lib ex_payload
   \<and> update_record (ex_env lib []) (dest_calls (ex_world_with ''stale'')) (table_id ex_cfg) ''rec1'' ex_payload = None
   \<and> fst (sync_record (ex_env lib []) ex_cfg ex_row (ex_world_with ''stale'')) = Inr Updated
   \<and> dest_calls (snd (sync_record (ex_env lib []) ex_cfg ex_row (ex_world_with ''stale'')))
       = [Update ''tbl'' ''rec1'' ex_payload]
   \<and> map_option smartsuite_record_id
        (get_record_mapping (db (snd (sync_record (ex_env lib []) ex_cfg ex_row (ex_world_with ''stale''))))
           ''orders'' ''7'')
       = Some ''rec1''"
    apply (intro conjI)
    apply (rule key)
    apply (rule mapped)
    apply (rule g0)
    apply (rule c0)
    apply (simp add: t1)
    apply (subst t1, simp add: ex_world_def ex_cfg_sel)
    apply (subst t1, simp add: get_record_mapping_def ex_cfg_sel ex_env_sel int_str_7)
    apply (simp add: get_record_mapping_def ex_world_with_def)
    apply (rule t2)
    apply (simp add: get_record_mapping_def ex_world_with_def)
    apply (rule ne)
    apply (rule u2)
    apply (simp add: t3)
    apply (subst t3, simp add: ex_world_with_def ex_cfg_sel)
    apply (subst t3, simp add: get_record_mapping_def ex_cfg_sel ex_env_sel int_str_7)
    done
qed

section \<open>The date converter\<close>

lemma replace_Z_append: "replace_Z (s @ t) = replace_Z s @ replace_Z t"
  by (induction s) simp_all

lemma replace_Z_none: "replace_Z (filter (\<lambda>c. c \<noteq> CHR ''Z'') s) = filter (\<lambda>c. c \<noteq> CHR ''Z'') s"
  by (induction s) simp_all

lemma to_date_total: "\<exists>obj. to_date lib opts v = Inr obj"
  by (cases v) (simp_all split: option.splits)

lemma nat_str_digits:
  "k < 10 \<Longrightarrow> nat_str k = [char_of (48 + k)]"
  "10 \<le> k \<Longrightarrow> k < 100 \<Longrightarrow> nat_str k = [char_of (48 + k div 10), char_of (48 + k mod 10)]"
  "100 \<le> k \<Longrightarrow> k < 1000 \<Longrightarrow>
     nat_str k = [char_of (48 + k div 100), char_of (48 + k div 10 mod 10), char_of (48 + k mod 10)]"
  "1000 \<le> k \<Longrightarrow> k < 10000 \<Longrightarrow>
     nat_str k = [char_of (48 + k div 1000), char_of (48 + k div 100 mod 10),
                  char_of (48 + k div 10 mod 10), char_of (48 + k mod 10)]"
proof -
  show a: "nat_str k = [char_of (48 + k)]" if "k < 10" for k
    using that by (subst nat_str.simps) (simp add: digit_char_def)
  show b: "nat_str k = [char_of (48 + k div 10), char_of (48 + k mod 10)]"
    if "10 \<le> k" "k < 100" for k
  proof -
    from that have "k div 10 < 10" by simp
    from a[OF this] that show ?thesis by (subst nat_str.simps) (simp add: digit_char_def)
  qed
  show c: "nat_str k = [char_of (48 + k div 100), char_of (48 + k div 10 mod 10), char_of (48 + k mod 10)]"
    if "100 \<le> k" "k < 1000" for k
  proof -
    from that have "10 \<le> k div 10" "k div 10 < 100" by simp_all
    from b[OF this] that show ?thesis
      by (subst nat_str.simps) (simp add: digit_char_def div_mult2_eq[symmetric])
  qed
  show "nat_str k = [char_of (48 + k div 1000), char_of (48 + k div 100 mod 10),
                  char_of (48 + k div 10 mod 10), char_of (48 + k mod 10)]"
    if "1000 \<le> k" "k < 10000"
  proof -
    from that have "100 \<le> k div 10" "k div 10 < 1000" by simp_all
    from c[OF this] that show ?thesis
      by (subst nat_str.simps) (simp add: digit_char_def div_mult2_eq[symmetric])
  qed
qed

lemma rep: "replicate (Suc 0) x = [x]" "replicate 2 x = [x, x]" "replicate 3 x = [x, x, x]"
  by (simp_all add: numeral_2_eq_2 numeral_3_eq_3)

lemma zero_char: "CHR ''0'' = char_of (48::nat)"
  by (simp add: char_of_def bit_Suc_0_iff)

lemma pad2_small:
  "k < 100 \<Longrightarrow> pad 2 k = [char_of (48 + k div 10), char_of (48 + k mod 10)]"
proof (cases "k < 10")
  case True
  then show ?thesis by (simp add: pad_def nat_str_digits(1) zero_char del: nat_str.simps)
next
  case False
  assume "k < 100"
  with False show ?thesis by (simp add: pad_def nat_str_digits(2) del: nat_str.simps)
qed

lemma pad4_small:
  "k < 10000 \<Longrightarrow> pad 4 k = [char_of (48 + k div 1000), char_of (48 + k div 100 mod 10),
                  char_of (48 + k div 10 mod 10), char_of (48 + k mod 10)]"
proof -
  assume k: "k < 10000"
  consider "k < 10" | "10 \<le> k" "k < 100" | "100 \<le> k" "k < 1000" | "1000 \<le> k" by linarith
  then show ?thesis
  proof cases
    case 1 then show ?thesis
      by (simp add: pad_def nat_str_digits(1) rep zero_char del: nat_str.simps)
  next
    case 2 then show ?thesis
      by (simp add: pad_def nat_str_digits(2) rep zero_char del: nat_str.simps)
  next
    case 3 then show ?thesis
      by (simp add: pad_def nat_str_digits(3) rep zero_char del: nat_str.simps)
  next
    case 4 with k show ?thesis by (simp add: pad_def nat_str_digits(4) del: nat_str.simps)
  qed
qed


lemma mod_div_swap: "0 < a \<Longrightarrow> (m::nat) mod (a * b) div a = m div a mod b"
  by (simp add: mod_mult2_eq)

lemma digits_mod:
  "(n::nat) mod 10000 div 1000 = n div 1000 mod 10"
  "(n::nat) mod 10000 div 100 mod 10 = n div 100 mod 10"
  "(n::nat) mod 10000 div 10 mod 10 = n div 10 mod 10"
  "(n::nat) mod 10000 mod 10 = n mod 10"
proof -
  show "n mod 10000 div 1000 = n div 1000 mod 10"
    using mod_div_swap[of 1000 n 10] by simp
  have "n mod 10000 div 100 = n div 100 mod 100"
    using mod_div_swap[of 100 n 100] by simp
  then show "n mod 10000 div 100 mod 10 = n div 100 mod 10"
    by (simp add: mod_mod_cancel)
  have "n mod 10000 div 10 = n div 10 mod 1000"
    using mod_div_swap[of 10 n 1000] by simp
  then show "n mod 10000 div 10 mod 10 = n div 10 mod 10"
    by (simp add: mod_mod_cancel)
  show "n mod 10000 mod 10 = n mod 10"
    by (simp add: mod_mod_cancel)
qed


lemma pad2_mod:
  "pad 2 (n mod 100) = [char_of (48 + n div 10 mod 10), char_of (48 + n mod 10)]"
proof -
  have a: "n mod 100 div 10 = n div 10 mod 10"
    using mod_div_swap[of 10 n 10] by simp
  have b: "n mod 100 mod 10 = n mod 10"
    by (simp add: mod_mod_cancel)
  have "n mod 100 < 100" by simp
  from pad2_small[OF this] show ?thesis unfolding a b .
qed

lemma pad4_mod:
  "pad 4 (n mod 10000) = [char_of (48 + n div 1000 mod 10), char_of (48 + n div 100 mod 10),
                  char_of (48 + n div 10 mod 10), char_of (48 + n mod 10)]"
proof -
  have "n mod 10000 < 10000" by simp
  from pad4_small[OF this] show ?thesis unfolding digits_mod .
qed

lemma pad_samples:
  "pad 4 2024 = ''2024''" "pad 2 3 = ''03''" "pad 2 5 = ''05''" "pad 2 14 = ''14''"
  "pad 2 7 = ''07''" "pad 2 9 = ''09''" "pad 2 30 = ''30''" "pad 6 250000 = ''250000''"
  "pad 2 0 = ''00''"
  by (simp_all add: pad_def digit_char_def char_of_def bit_Suc_0_iff)

lemma date_samples:
  "isoformat (DateTime (Date 2024 3 5) 14 7 9 0 None) = ''2024-03-05T14:07:09''"
  "isoformat (DateTime (Date 2024 3 5) 14 7 9 250000 (Some 19800000000)) =
     ''2024-03-05T14:07:09.250000+05:30''"
  "isoformat (DateTime (Date 2024 3 5) 14 7 9 0 (Some 0)) = ''2024-03-05T14:07:09+00:00''"
  "isoformat (combine_midnight (Date 2024 3 5)) = ''2024-03-05T00:00:00''"
  by (simp_all add: isoformat_def combine_midnight_def format_offset_def Let_def pad_samples)

lemma replace_Z_sample: "replace_Z ''2024-03-05T14:07:09Z'' = ''2024-03-05T14:07:09+00:00''"
  by simp

lemma iso_date_digits:
  "date_iso (Date (y mod 10000) (m mod 100) (d mod 100)) =
     [char_of (48 + y div 1000 mod 10), char_of (48 + y div 100 mod 10),
      char_of (48 + y div 10 mod 10), char_of (48 + y mod 10), CHR ''-'',
      char_of (48 + m div 10 mod 10), char_of (48 + m mod 10), CHR ''-'',
      char_of (48 + d div 10 mod 10), char_of (48 + d mod 10)]"
  by (simp add: pad2_mod pad4_mod)

text \<open>
  C6. \<open>to_date\<close> returns the object \<open>{date, include_time}\<close>. A date-time gives its ISO
  text (year, month and day, \<open>T\<close>, hours, minutes and seconds, each zero-padded; then
  the microseconds and the offset if it has them) with \<open>include_time\<close> true whatever
  the option says. A date gives the ISO text of midnight of that day with the caller's
  flag, which is false when the option is absent. A text is handed to the ISO parser
  with each \<open>Z\<close> replaced by \<open>+00:00\<close> (so a trailing \<open>Z\<close> reads as the UTC offset) and
  gives the parsed time's ISO text, or the text itself, unmodified, when the parser
  rejects it, with the caller's flag. No input makes \<open>to_date\<close> raise.
\<close>

theorem date_conversion_policy:
  "to_date lib opts (PDateTime dt) =
     Inr (PDict [(''date'', PStr (isoformat dt)), (''include_time'', PBool True)])
   \<and> to_date lib opts
       (PDateTime (DateTime (Date (y mod 10000) (m mod 100) (d mod 100))
                     (h mod 100) (mi mod 100) (sec mod 100) 0 None)) =
       Inr (PDict [(''date'', PStr
              [char_of (48 + y div 1000 mod 10), char_of (48 + y div 100 mod 10),
               char_of (48 + y div 10 mod 10), char_of (48 + y mod 10), CHR ''-'',
               char_of (48 + m div 10 mod 10), char_of (48 + m mod 10), CHR ''-'',
               char_of (48 + d div 10 mod 10), char_of (48 + d mod 10), CHR ''T'',
               char_of (48 + h div 10 mod 10), char_of (48 + h mod 10), CHR '':'',
               char_of (48 + mi div 10 mod 10), char_of (48 + mi mod 10), CHR '':'',
               char_of (48 + sec div 10 mod 10), char_of (48 + sec mod 10)]),
             (''include_time'', PBool True)])
   \<and> to_date lib (opts\<lparr>include_time := Some (PBool False)\<rparr>)
       (PDateTime (DateTime (Date 2024 3 5) 14 7 9 0 None)) =
       Inr (PDict [(''date'', PStr ''2024-03-05T14:07:09''), (''include_time'', PBool True)])
   \<and> to_date lib (opts\<lparr>include_time := None\<rparr>)
       (PDateTime (DateTime (Date 2024 3 5) 14 7 9 250000 (Some 19800000000))) =
       Inr (PDict [(''date'', PStr ''2024-03-05T14:07:09.250000+05:30''),
                   (''include_time'', PBool True)])
   \<and> to_date lib opts (PDate (Date (y mod 10000) (m mod 100) (d mod 100))) =
       Inr (PDict [(''date'', PStr
              [char_of (48 + y div 1000 mod 10), char_of (48 + y div 100 mod 10),
               char_of (48 + y div 10 mod 10), char_of (48 + y mod 10), CHR ''-'',
               char_of (48 + m div 10 mod 10), char_of (48 + m mod 10), CHR ''-'',
               char_of (48 + d div 10 mod 10), char_of (48 + d mod 10), CHR ''T'',
               CHR ''0'', CHR ''0'', CHR '':'', CHR ''0'', CHR ''0'', CHR '':'', CHR ''0'', CHR ''0'']),
             (''include_time'', case include_time opts of None \<Rightarrow> PBool False | Some flag \<Rightarrow> flag)])
   \<and> to_date lib (opts\<lparr>include_time := None\<rparr>) (PDate (Date 2024 3 5)) =
       Inr (PDict [(''date'', PStr ''2024-03-05T00:00:00''), (''include_time'', PBool False)])
   \<and> to_date lib (opts\<lparr>include_time := Some (PBool True)\<rparr>) (PDate (Date 2024 3 5)) =
       Inr (PDict [(''date'', PStr ''2024-03-05T00:00:00''), (''include_time'', PBool True)])
   \<and> to_date lib opts (PStr s) =
       Inr (PDict [(''date'', PStr (case fromisoformat lib (replace_Z s) of
                                      Some p \<Rightarrow> isoformat p | None \<Rightarrow> s)),
                   (''include_time'', case include_time opts of None \<Rightarrow> PBool False | Some flag \<Rightarrow> flag)])
   \<and> replace_Z (filter (\<lambda>c. c \<noteq> CHR ''Z'') s @ ''Z'') = filter (\<lambda>c. c \<noteq> CHR ''Z'') s @ ''+00:00''
   \<and> replace_Z ''2024-03-05T14:07:09Z'' = ''2024-03-05T14:07:09+00:00''
   \<and> to_date
        (lib\<lparr>fromisoformat := (\<lambda>t. if t = ''2024-03-05T14:07:09+00:00''
                                       then Some (DateTime (Date 2024 3 5) 14 7 9 0 (Some 0)) else None)\<rparr>)
        (opts\<lparr>include_time := None\<rparr>) (PStr ''2024-03-05T14:07:09Z'') =
       Inr (PDict [(''date'', PStr ''2024-03-05T14:07:09+00:00''), (''include_time'', PBool False)])
   \<and> to_date
        (lib\<lparr>fromisoformat := (\<lambda>t. if t = ''2024-03-05T14:07:09+00:00''
                                       then Some (DateTime (Date 2024 3 5) 14 7 9 0 (Some 0)) else None)\<rparr>)
        (opts\<lparr>include_time := Some (PBool True)\<rparr>) (PStr ''next tuesday'') =
       Inr (PDict [(''date'', PStr ''next tuesday''), (''include_time'', PBool True)])
   \<and> (\<exists>obj. to_date lib opts v = Inr obj)"
proof (intro conjI)
  show "to_date lib opts (PDateTime dt) =
     Inr (PDict [(''date'', PStr (isoformat dt)), (''include_time'', PBool True)])"
    by (simp add: date_object_def)
  show "to_date lib opts
       (PDateTime (DateTime (Date (y mod 10000) (m mod 100) (d mod 100))
                     (h mod 100) (mi mod 100) (sec mod 100) 0 None)) =
       Inr (PDict [(''date'', PStr
              [char_of (48 + y div 1000 mod 10), char_of (48 + y div 100 mod 10),
               char_of (48 + y div 10 mod 10), char_of (48 + y mod 10), CHR ''-'',
               char_of (48 + m div 10 mod 10), char_of (48 + m mod 10), CHR ''-'',
               char_of (48 + d div 10 mod 10), char_of (48 + d mod 10), CHR ''T'',
               char_of (48 + h div 10 mod 10), char_of (48 + h mod 10), CHR '':'',
               char_of (48 + mi div 10 mod 10), char_of (48 + mi mod 10), CHR '':'',
               char_of (48 + sec div 10 mod 10), char_of (48 + sec mod 10)]),
             (''include_time'', PBool True)])"
    by (simp add: date_object_def isoformat_def format_offset_def iso_date_digits pad2_mod
        del: date_iso.simps)
  show "to_date lib (opts\<lparr>include_time := Some (PBool False)\<rparr>)
       (PDateTime (DateTime (Date 2024 3 5) 14 7 9 0 None)) =
       Inr (PDict [(''date'', PStr ''2024-03-05T14:07:09''), (''include_time'', PBool True)])"
    by (simp only: to_date.simps date_samples date_object_def)
  show "to_date lib (opts\<lparr>include_time := None\<rparr>)
       (PDateTime (DateTime (Date 2024 3 5) 14 7 9 250000 (Some 19800000000))) =
       Inr (PDict [(''date'', PStr ''2024-03-05T14:07:09.250000+05:30''),
                   (''include_time'', PBool True)])"
    by (simp only: to_date.simps date_samples date_object_def)
  show "to_date lib opts (PDate (Date (y mod 10000) (m mod 100) (d mod 100))) =
       Inr (PDict [(''date'', PStr
              [char_of (48 + y div 1000 mod 10), char_of (48 + y div 100 mod 10),
               char_of (48 + y div 10 mod 10), char_of (48 + y mod 10), CHR ''-'',
               char_of (48 + m div 10 mod 10), char_of (48 + m mod 10), CHR ''-'',
               char_of (48 + d div 10 mod 10), char_of (48 + d mod 10), CHR ''T'',
               CHR ''0'', CHR ''0'', CHR '':'', CHR ''0'', CHR ''0'', CHR '':'', CHR ''0'', CHR ''0'']),
             (''include_time'', case include_time opts of None \<Rightarrow> PBool False | Some flag \<Rightarrow> flag)])"
    by (simp add: date_object_def isoformat_def combine_midnight_def format_offset_def
        get_include_time_def iso_date_digits pad_samples del: date_iso.simps)
  show "to_date lib (opts\<lparr>include_time := None\<rparr>) (PDate (Date 2024 3 5)) =
       Inr (PDict [(''date'', PStr ''2024-03-05T00:00:00''), (''include_time'', PBool False)])"
    by (simp add: date_samples date_object_def get_include_time_def)
  show "to_date lib (opts\<lparr>include_time := Some (PBool True)\<rparr>) (PDate (Date 2024 3 5)) =
       Inr (PDict [(''date'', PStr ''2024-03-05T00:00:00''), (''include_time'', PBool True)])"
    by (simp add: date_samples date_object_def get_include_time_def)
  show "to_date lib opts (PStr s) =
       Inr (PDict [(''date'', PStr (case fromisoformat lib (replace_Z s) of
                                      Some p \<Rightarrow> isoformat p | None \<Rightarrow> s)),
                   (''include_time'', case include_time opts of None \<Rightarrow> PBool False | Some flag \<Rightarrow> flag)])"
    by (simp add: date_object_def get_include_time_def split: option.splits)
  show "replace_Z (filter (\<lambda>c. c \<noteq> CHR ''Z'') s @ ''Z'') = filter (\<lambda>c. c \<noteq> CHR ''Z'') s @ ''+00:00''"
    by (simp add: replace_Z_append replace_Z_none)
  show "replace_Z ''2024-03-05T14:07:09Z'' = ''2024-03-05T14:07:09+00:00''"
    by (rule replace_Z_sample)
  show "to_date
        (lib\<lparr>fromisoformat := (\<lambda>t. if t = ''2024-03-05T14:07:09+00:00''
                                       then Some (DateTime (Date 2024 3 5) 14 7 9 0 (Some 0)) else None)\<rparr>)
        (opts\<lparr>include_time := None\<rparr>) (PStr ''2024-03-05T14:07:09Z'') =
       Inr (PDict [(''date'', PStr ''2024-03-05T14:07:09+00:00''), (''include_time'', PBool False)])"
    by (simp add: replace_Z_sample date_samples date_object_def get_include_time_def
        del: replace_Z.simps)
  show "to_date
        (lib\<lparr>fromisoformat := (\<lambda>t. if t = ''2024-03-05T14:07:09+00:00''
                                       then Some (DateTime (Date 2024 3 5) 14 7 9 0 (Some 0)) else None)\<rparr>)
        (opts\<lparr>include_time := Some (PBool True)\<rparr>) (PStr ''next tuesday'') =
       Inr (PDict [(''date'', PStr ''next tuesday''), (''include_time'', PBool True)])"
    by (simp add: date_object_def get_include_time_def)
  show "\<exists>obj. to_date lib opts v = Inr obj"
    by (rule to_date_total)
qed

section \<open>Conversion faults and null values in the mapper\<close>

lemma num_raises:
  "map_record lib ex_cfg_number [(''amount'', PStr ''N/A'')] = Inl ValueError"
  by (simp add: ex_cfg_number_def conv_simps to_number_def str_float_def float_literal_def
      float_literal_bytes_def strip_ascii_space_def space_to_ascii_def is_ascii_space_def
      drop_sign_def floatnumber_def mantissa_def digitpart_def is_digit_def Let_def)

lemma legacy_falls_back:
  "map_record lib ex_cfg_legacy [(''amount'', PStr ''N/A'')] = Inr [(''total'', PStr ''N/A'')]"
  by (simp add: ex_cfg_legacy_def conv_simps legacy_transform_def to_number_def str_float_def
      float_literal_def float_literal_bytes_def strip_ascii_space_def space_to_ascii_def
      is_ascii_space_def drop_sign_def floatnumber_def mantissa_def digitpart_def is_digit_def
      Let_def)

lemma null_ex:
  "map_record lib ex_cfg ex_null_row =
     Inr [(''ext_id'', PNone), (''is_paid'', PBool False)]"
  by (simp add: ex_cfg_def ex_null_row_def conv_simps)

text \<open>
  C4 against the code. A field with a declared type \<open>number\<close> and the text \<open>N/A\<close>:
  \<open>float\<close> raises \<open>ValueError\<close>, nothing on the typed path catches it, and it leaves
  \<open>map_record\<close>. The same value under the legacy \<open>number\<close> rule is caught by the
  \<open>try\<close> of \<open>_legacy_transform\<close> and falls back to the automatic conversion.
\<close>

theorem typed_number_conversion_raises:
  "\<forall>lib. map_record lib ex_cfg_number [(''amount'', PStr ''N/A'')] = Inl ValueError
     \<and> map_record lib ex_cfg_legacy [(''amount'', PStr ''N/A'')] = Inr [(''total'', PStr ''N/A'')]"
  by (simp add: num_raises legacy_falls_back)

lemma map_fields_dom:
  "map_fields lib cfg r fm acc = Inr m \<Longrightarrow> map_of acc d \<noteq> None \<Longrightarrow> map_of m d \<noteq> None"
proof (induction fm arbitrary: acc)
  case Nil
  then show ?case by simp
next
  case (Cons p fm)
  obtain f d' where p: "p = (f, d')" by (cases p)
  show ?case
  proof (cases "map_of r f")
    case None
    with Cons.prems(1) p have "map_fields lib cfg r fm acc = Inr m" by simp
    from Cons.IH[OF this Cons.prems(2)] show ?thesis .
  next
    case (Some v)
    with Cons.prems(1) p obtain tv where tv: "transform_value lib cfg f v = Inr tv"
      and rest: "map_fields lib cfg r fm (AList.update d' tv acc) = Inr m"
      by (cases "transform_value lib cfg f v") auto
    have "map_of (AList.update d' tv acc) d \<noteq> None"
      using Cons.prems(2) by (simp add: update_conv')
    from Cons.IH[OF rest this] show ?thesis .
  qed
qed

lemma map_fields_emit:
  "map_fields lib cfg r fm acc = Inr m \<Longrightarrow> (f, d) \<in> set fm \<Longrightarrow> map_of r f = Some v
     \<Longrightarrow> map_of m d \<noteq> None"
proof (induction fm arbitrary: acc)
  case Nil
  then show ?case by simp
next
  case (Cons p fm)
  obtain f' d' where p: "p = (f', d')" by (cases p)
  show ?case
  proof (cases "map_of r f'")
    case None
    with Cons.prems(1) p have rest: "map_fields lib cfg r fm acc = Inr m" by simp
    from None Cons.prems(2,3) p have "(f, d) \<in> set fm" by auto
    from Cons.IH[OF rest this Cons.prems(3)] show ?thesis .
  next
    case (Some v')
    with Cons.prems(1) p obtain tv where tv: "transform_value lib cfg f' v' = Inr tv"
      and rest: "map_fields lib cfg r fm (AList.update d' tv acc) = Inr m"
      by (cases "transform_value lib cfg f' v'") auto
    show ?thesis
    proof (cases "(f, d) \<in> set fm")
      case True
      from Cons.IH[OF rest True Cons.prems(3)] show ?thesis .
    next
      case False
      with Cons.prems(2) p have "d' = d" by auto
      then have "map_of (AList.update d' tv acc) d \<noteq> None" by (simp add: update_conv')
      from map_fields_dom[OF rest this] show ?thesis .
    qed
  qed
qed

lemma map_fields_absent:
  "map_fields lib cfg r fm acc = Inr m \<Longrightarrow> (\<forall>f'. (f', d) \<in> set fm \<longrightarrow> map_of r f' = None)
     \<Longrightarrow> map_of m d = map_of acc d"
proof (induction fm arbitrary: acc)
  case Nil
  then show ?case by simp
next
  case (Cons p fm)
  obtain f' d' where p: "p = (f', d')" by (cases p)
  from Cons.prems(2) have rest_absent: "\<forall>f'. (f', d) \<in> set fm \<longrightarrow> map_of r f' = None" by simp
  show ?case
  proof (cases "map_of r f'")
    case None
    with Cons.prems(1) p have "map_fields lib cfg r fm acc = Inr m" by simp
    from Cons.IH[OF this rest_absent] show ?thesis .
  next
    case (Some v)
    with Cons.prems(2) p have nd: "d' \<noteq> d" by auto
    from Some Cons.prems(1) p obtain tv where
      rest: "map_fields lib cfg r fm (AList.update d' tv acc) = Inr m"
      by (cases "transform_value lib cfg f' v") auto
    from Cons.IH[OF rest rest_absent] nd show ?thesis by (simp add: update_conv')
  qed
qed

lemma map_fields_only:
  "map_fields lib cfg r fm acc = Inr m \<Longrightarrow> (f, d) \<in> set fm \<Longrightarrow> map_of r f = Some v
     \<Longrightarrow> (\<forall>f'. (f', d) \<in> set fm \<and> f' \<noteq> f \<longrightarrow> map_of r f' = None)
     \<Longrightarrow> \<exists>tv. transform_value lib cfg f v = Inr tv \<and> map_of m d = Some tv"
proof (induction fm arbitrary: acc)
  case Nil
  then show ?case by simp
next
  case (Cons p fm)
  obtain f' d' where p: "p = (f', d')" by (cases p)
  from Cons.prems(4) have others: "\<forall>f'. (f', d) \<in> set fm \<and> f' \<noteq> f \<longrightarrow> map_of r f' = None"
    by simp
  show ?case
  proof (cases "map_of r f'")
    case None
    with Cons.prems(1) p have rest: "map_fields lib cfg r fm acc = Inr m" by simp
    from None Cons.prems(2,3) p have "(f, d) \<in> set fm" by auto
    from Cons.IH[OF rest this Cons.prems(3) others] show ?thesis .
  next
    case (Some v')
    with Cons.prems(1) p obtain tv' where tv': "transform_value lib cfg f' v' = Inr tv'"
      and rest: "map_fields lib cfg r fm (AList.update d' tv' acc) = Inr m"
      by (cases "transform_value lib cfg f' v'") auto
    show ?thesis
    proof (cases "(f, d) \<in> set fm")
      case True
      from Cons.IH[OF rest True Cons.prems(3) others] show ?thesis .
    next
      case False
      with Cons.prems(2) p have eq: "f' = f" "d' = d" by auto
      with Some Cons.prems(3) have v: "v' = v" by simp
      from False others have "\<forall>f'. (f', d) \<in> set fm \<longrightarrow> map_of r f' = None" by blast
      from map_fields_absent[OF rest this] eq have "map_of m d = Some tv'"
        by (simp add: update_conv')
      with tv' eq v show ?thesis by simp
    qed
  qed
qed

lemma legacy_null:
  "map_of (field_types cfg) f = None \<Longrightarrow> map_of (transformations cfg) f = Some tr \<Longrightarrow>
     transform_value lib cfg f PNone =
       (if rule_type tr = Some ''number'' then Inr (PStr ''0'')
        else if rule_type tr = Some ''choice''
          then Inr (case map_of (case rule_value_map tr of None \<Rightarrow> [] | Some vm \<Rightarrow> vm) [] of
                      Some x \<Rightarrow> x | None \<Rightarrow> PStr [])
        else if rule_type tr = Some ''date''
          then Inr (PDict [(''date'', PNone),
                           (''include_time'',
                            case rule_include_time tr of None \<Rightarrow> PBool False | Some x \<Rightarrow> x)])
        else Inr PNone)"
  by (auto simp: transform_value_def legacy_transform_def to_number_def to_single_select_def
      get_value_map_def no_options_def date_object_def get_include_time_def Let_def
      split: option.splits)

lemma null_value_not_null: "null_value_for_type t \<noteq> PNone"
  by (simp add: null_value_for_type_def date_object_def)

lemma typed_null:
  "map_of (field_types cfg) f = Some fc \<Longrightarrow>
     transform_value lib cfg f PNone =
       Inr (null_value_for_type (case rule_type fc of None \<Rightarrow> ''text'' | Some t \<Rightarrow> t))"
  by (simp add: transform_value_def convert_def)

lemma null_samples:
  "null_value_for_type ''multipleselectfield'' = PList []"
  "null_value_for_type ''YesNo'' = PBool False"
  "null_value_for_type ''Number'' = PStr ''0''"
  "null_value_for_type ''date'' = PDict [(''date'', PNone), (''include_time'', PBool False)]"
  "null_value_for_type ''text'' = PStr []"
  by (simp_all add: null_value_for_type_def array_types_def date_object_def lower_def
      lower_char_def code_def char_of_def bit_Suc_0_iff)

lemma shared_destination_overwrites:
  "map_record lib ex_cfg_shared [(''amount'', PNone), (''note'', PNone)] = Inr [(''total'', PNone)]"
  by (simp add: ex_cfg_shared_def conv_simps)

text \<open>
  C5, as the code has it. A source field of the field mapping whose value is null is
  still emitted by \<open>map_record\<close> (when it returns). Its value is what
  \<open>transform_value\<close> makes of the null, provided no other source field present in the
  record is mapped to the same destination field (the loop assigns in the order of the
  mapping, and a later field overwrites the value). With a declared field type that is
  the null policy's value: an empty array for the six list types, false for \<open>yesno\<close>,
  the text \<open>0\<close> for the numeric types, an object with a null date for \<open>date\<close>, the
  empty text otherwise, and never a literal null. With a legacy transformation rule
  only, \<open>number\<close> gives the text \<open>0\<close>, \<open>date\<close> an object with a null date and the
  rule's \<open>include_time\<close> flag, \<open>choice\<close> the empty text (or what the rule's value map
  has for the empty text), and any other rule type the literal null. With neither a
  declared type nor a legacy rule, \<open>_auto_convert\<close> returns the null as it is.
\<close>

theorem null_handling:
  "(\<forall>fc. map_of (field_types cfg) f = Some fc \<longrightarrow>
       transform_value lib cfg f PNone =
         Inr (null_value_for_type (case rule_type fc of None \<Rightarrow> ''text'' | Some t \<Rightarrow> t)))
   \<and> null_value_for_type t =
       (if lower t \<in> set [''multipleselectfield'', ''emailfield'', ''phonefield'',
                            ''linkfield'', ''linkedrecordfield'', ''memberfield''] then PList []
        else if lower t = ''yesno'' then PBool False
        else if lower t \<in> set [''number'', ''currency'', ''percent''] then PStr ''0''
        else if lower t = ''date'' then PDict [(''date'', PNone), (''include_time'', PBool False)]
        else PStr [])
   \<and> null_value_for_type ''multipleselectfield'' = PList []
   \<and> null_value_for_type ''YesNo'' = PBool False
   \<and> null_value_for_type ''Number'' = PStr ''0''
   \<and> null_value_for_type ''date'' = PDict [(''date'', PNone), (''include_time'', PBool False)]
   \<and> null_value_for_type ''text'' = PStr []
   \<and> null_value_for_type t \<noteq> PNone
   \<and> (\<forall>tr. map_of (field_types cfg) f = None \<and> map_of (transformations cfg) f = Some tr \<longrightarrow>
         transform_value lib cfg f PNone =
           (if rule_type tr = Some ''number'' then Inr (PStr ''0'')
            else if rule_type tr = Some ''choice''
              then Inr (case map_of (case rule_value_map tr of None \<Rightarrow> [] | Some vm \<Rightarrow> vm) [] of
                          Some x \<Rightarrow> x | None \<Rightarrow> PStr [])
            else if rule_type tr = Some ''date''
              then Inr (PDict [(''date'', PNone),
                               (''include_time'',
                                case rule_include_time tr of None \<Rightarrow> PBool False | Some x \<Rightarrow> x)])
            else Inr PNone))
   \<and> (map_of (field_types cfg) f = None \<and> map_of (transformations cfg) f = None \<longrightarrow>
       transform_value lib cfg f PNone = Inr PNone)
   \<and> (\<forall>d r mapped. (f, d) \<in> set (field_mappings cfg) \<and> map_of r f = Some PNone
         \<and> map_record lib cfg r = Inr mapped \<longrightarrow> map_of mapped d \<noteq> None)
   \<and> (\<forall>d r mapped. (f, d) \<in> set (field_mappings cfg) \<and> map_of r f = Some PNone
         \<and> map_record lib cfg r = Inr mapped
         \<and> (\<forall>f'. (f', d) \<in> set (field_mappings cfg) \<and> f' \<noteq> f \<longrightarrow> map_of r f' = None) \<longrightarrow>
         (\<exists>tv. transform_value lib cfg f PNone = Inr tv \<and> map_of mapped d = Some tv))"
proof (intro conjI allI impI)
  fix fc assume "map_of (field_types cfg) f = Some fc"
  then show "transform_value lib cfg f PNone =
       Inr (null_value_for_type (case rule_type fc of None \<Rightarrow> ''text'' | Some t \<Rightarrow> t))"
    by (rule typed_null)
next
  show "null_value_for_type t =
       (if lower t \<in> set [''multipleselectfield'', ''emailfield'', ''phonefield'',
                            ''linkfield'', ''linkedrecordfield'', ''memberfield''] then PList []
        else if lower t = ''yesno'' then PBool False
        else if lower t \<in> set [''number'', ''currency'', ''percent''] then PStr ''0''
        else if lower t = ''date'' then PDict [(''date'', PNone), (''include_time'', PBool False)]
        else PStr [])"
    by (simp only: null_value_for_type_def array_types_def date_object_def)
next
  show "null_value_for_type ''multipleselectfield'' = PList []" by (rule null_samples)
next
  show "null_value_for_type ''YesNo'' = PBool False" by (rule null_samples)
next
  show "null_value_for_type ''Number'' = PStr ''0''" by (rule null_samples)
next
  show "null_value_for_type ''date'' = PDict [(''date'', PNone), (''include_time'', PBool False)]"
    by (rule null_samples)
next
  show "null_value_for_type ''text'' = PStr []" by (rule null_samples)
next
  show "null_value_for_type t \<noteq> PNone" by (rule null_value_not_null)
next
  fix tr
  assume "map_of (field_types cfg) f = None \<and> map_of (transformations cfg) f = Some tr"
  then show "transform_value lib cfg f PNone =
           (if rule_type tr = Some ''number'' then Inr (PStr ''0'')
            else if rule_type tr = Some ''choice''
              then Inr (case map_of (case rule_value_map tr of None \<Rightarrow> [] | Some vm \<Rightarrow> vm) [] of
                          Some x \<Rightarrow> x | None \<Rightarrow> PStr [])
            else if rule_type tr = Some ''date''
              then Inr (PDict [(''date'', PNone),
                               (''include_time'',
                                case rule_include_time tr of None \<Rightarrow> PBool False | Some x \<Rightarrow> x)])
            else Inr PNone)"
    using legacy_null[of cfg f tr lib] by blast
next
  assume "map_of (field_types cfg) f = None \<and> map_of (transformations cfg) f = None"
  then show "transform_value lib cfg f PNone = Inr PNone"
    by (simp add: transform_value_def)
next
  fix d r mapped
  assume a: "(f, d) \<in> set (field_mappings cfg) \<and> map_of r f = Some PNone
         \<and> map_record lib cfg r = Inr mapped"
  then have "map_fields lib cfg r (field_mappings cfg) [] = Inr mapped"
    by (simp add: map_record_def)
  from map_fields_emit[OF this] a show "map_of mapped d \<noteq> None" by blast
next
  fix d r mapped
  assume a: "(f, d) \<in> set (field_mappings cfg) \<and> map_of r f = Some PNone
         \<and> map_record lib cfg r = Inr mapped
         \<and> (\<forall>f'. (f', d) \<in> set (field_mappings cfg) \<and> f' \<noteq> f \<longrightarrow> map_of r f' = None)"
  then have m: "map_fields lib cfg r (field_mappings cfg) [] = Inr mapped"
    by (simp add: map_record_def)
  from a have i: "(f, d) \<in> set (field_mappings cfg)" and v: "map_of r f = Some PNone"
    and o: "\<forall>f'. (f', d) \<in> set (field_mappings cfg) \<and> f' \<noteq> f \<longrightarrow> map_of r f' = None"
    by blast+
  show "\<exists>tv. transform_value lib cfg f PNone = Inr tv \<and> map_of mapped d = Some tv"
    by (rule map_fields_only[OF m i v o])
qed

theorem null_handling_witness:
  "\<forall>lib.
     map_of (field_types ex_cfg) ''paid'' =
       Some \<lparr>rule_type = Some ''yesno'', rule_value_map = None, rule_include_time = None\<rparr>
   \<and> transform_value lib ex_cfg ''paid'' PNone = Inr (PBool False)
   \<and> map_of (field_types ex_cfg) ''id'' = None
   \<and> map_of (transformations ex_cfg) ''id'' = None
   \<and> transform_value lib ex_cfg ''id'' PNone = Inr PNone
   \<and> map_of (field_types ex_cfg_legacy) ''amount'' = None
   \<and> map_of (transformations ex_cfg_legacy) ''amount'' =
       Some \<lparr>rule_type = Some ''number'', rule_value_map = None, rule_include_time = None\<rparr>
   \<and> transform_value lib ex_cfg_legacy ''amount'' PNone = Inr (PStr ''0'')
   \<and> (''paid'', ''is_paid'') \<in> set (field_mappings ex_cfg)
   \<and> map_of ex_null_row ''paid'' = Some PNone
   \<and> map_record lib ex_cfg ex_null_row = Inr [(''ext_id'', PNone), (''is_paid'', PBool False)]
   \<and> (\<exists>tv. transform_value lib ex_cfg ''paid'' PNone = Inr tv
          \<and> map_of [(''ext_id'', PNone), (''is_paid'', PBool False)] ''is_paid'' = Some tv)"
proof
  fix lib
  let ?fc = "\<lparr>rule_type = Some ''yesno'', rule_value_map = None, rule_include_time = None\<rparr>"
  let ?tr = "\<lparr>rule_type = Some ''number'', rule_value_map = None, rule_include_time = None\<rparr>"
  have a: "map_of (field_types ex_cfg) ''paid'' = Some ?fc" by (simp add: ex_cfg_def)
  have b: "(''paid'', ''is_paid'') \<in> set (field_mappings ex_cfg)" by (simp add: ex_cfg_def)
  have c: "map_of ex_null_row ''paid'' = Some PNone" by (simp add: ex_null_row_def)
  have o: "\<forall>f'. (f', ''is_paid'') \<in> set (field_mappings ex_cfg) \<and> f' \<noteq> ''paid''
             \<longrightarrow> map_of ex_null_row f' = None"
    by (simp add: ex_cfg_def)
  have e: "map_of (field_types ex_cfg) ''id'' = None" "map_of (transformations ex_cfg) ''id'' = None"
    by (simp_all add: ex_cfg_def)
  have l: "map_of (field_types ex_cfg_legacy) ''amount'' = None"
          "map_of (transformations ex_cfg_legacy) ''amount'' = Some ?tr"
    by (simp_all add: ex_cfg_legacy_def)
  have n: "null_value_for_type ''yesno'' = PBool False"
    by (simp add: null_value_for_type_def array_types_def lower_def lower_char_def code_def)
  from null_handling[of ex_cfg "''paid''" lib] a
  have "transform_value lib ex_cfg ''paid'' PNone =
          Inr (null_value_for_type (case rule_type ?fc of None \<Rightarrow> ''text'' | Some t \<Rightarrow> t))"
    by blast
  then have t1: "transform_value lib ex_cfg ''paid'' PNone = Inr (PBool False)"
    by (simp add: n)
  have t2: "transform_value lib ex_cfg ''id'' PNone = Inr PNone"
    using null_handling[of ex_cfg "''id''" lib] e by blast
  from null_handling[of ex_cfg_legacy "''amount''" lib] l
  have "transform_value lib ex_cfg_legacy ''amount'' PNone =
          (if rule_type ?tr = Some ''number'' then Inr (PStr ''0'')
            else if rule_type ?tr = Some ''choice''
              then Inr (case map_of (case rule_value_map ?tr of None \<Rightarrow> [] | Some vm \<Rightarrow> vm) [] of
                          Some x \<Rightarrow> x | None \<Rightarrow> PStr [])
            else if rule_type ?tr = Some ''date''
              then Inr (PDict [(''date'', PNone),
                               (''include_time'',
                                case rule_include_time ?tr of None \<Rightarrow> PBool False | Some x \<Rightarrow> x)])
            else Inr PNone)"
    by blast
  then have t3: "transform_value lib ex_cfg_legacy ''amount'' PNone = Inr (PStr ''0'')"
    by simp
  have v: "\<exists>tv. transform_value lib ex_cfg ''paid'' PNone = Inr tv
          \<and> map_of [(''ext_id'', PNone), (''is_paid'', PBool False)] ''is_paid'' = Some tv"
    using null_handling[of ex_cfg "''paid''" lib] b c o null_ex[of lib] by blast
  show "map_of (field_types ex_cfg) ''paid'' = Some ?fc
   \<and> transform_value lib ex_cfg ''paid'' PNone = Inr (PBool False)
   \<and> map_of (field_types ex_cfg) ''id'' = None
   \<and> map_of (transformations ex_cfg) ''id'' = None
   \<and> transform_value lib ex_cfg ''id'' PNone = Inr PNone
   \<and> map_of (field_types ex_cfg_legacy) ''amount'' = None
   \<and> map_of (transformations ex_cfg_legacy) ''amount'' = Some ?tr
   \<and> transform_value lib ex_cfg_legacy ''amount'' PNone = Inr (PStr ''0'')
   \<and> (''paid'', ''is_paid'') \<in> set (field_mappings ex_cfg)
   \<and> map_of ex_null_row ''paid'' = Some PNone
   \<and> map_record lib ex_cfg ex_null_row = Inr [(''ext_id'', PNone), (''is_paid'', PBool False)]
   \<and> (\<exists>tv. transform_value lib ex_cfg ''paid'' PNone = Inr tv
          \<and> map_of [(''ext_id'', PNone), (''is_paid'', PBool False)] ''is_paid'' = Some tv)"
    using a b c e l t1 t2 t3 v null_ex[of lib] by (intro conjI) assumption+
qed

text \<open>
  C5 as stated fails: \<open>id\<close> is in the field mapping and has no declared type; its
  null value is emitted as a literal null.
\<close>

theorem null_passes_through_counterexample:
  "\<forall>lib. map_of (field_mappings ex_cfg) ''id'' = Some ''ext_id''
     \<and> map_of ex_null_row ''id'' = Some PNone
     \<and> map_record lib ex_cfg ex_null_row = Inr [(''ext_id'', PNone), (''is_paid'', PBool False)]"
  by (simp add: null_ex) (simp add: ex_cfg_def ex_null_row_def)

section \<open>The fingerprint\<close>
















section \<open>Idempotence of a repeated run\<close>


















lemma hexchar_inj: "hexchar a = hexchar b \<Longrightarrow> a mod 16 = b mod 16"
proof -
  have d: "distinct ''0123456789abcdef''" by simp
  have l: "a mod 16 < length ''0123456789abcdef''" "b mod 16 < length ''0123456789abcdef''"
    by simp_all
  assume "hexchar a = hexchar b"
  then have "''0123456789abcdef'' ! (a mod 16) = ''0123456789abcdef'' ! (b mod 16)"
    by (simp only: hexchar_def)
  with nth_eq_iff_index_eq[OF d l] show ?thesis by blast
qed

lemma hex_digits_inj: "hex_digits n v = hex_digits n v' \<Longrightarrow> v mod 16 ^ n = v' mod 16 ^ n"
proof (induction n arbitrary: v v')
  case 0
  show ?case by simp
next
  case (Suc n)
  from Suc.prems have "hex_digits n (v div 16) = hex_digits n (v' div 16)" "hexchar v = hexchar v'"
    by (simp_all add: length_hex_digits)
  with Suc.IH hexchar_inj have a: "(v div 16) mod 16 ^ n = (v' div 16) mod 16 ^ n" "v mod 16 = v' mod 16"
    by blast+
  have "v mod 16 ^ Suc n = 16 * ((v div 16) mod 16 ^ n) + v mod 16"
    by (simp add: mod_mult2_eq)
  moreover have "v' mod 16 ^ Suc n = 16 * ((v' div 16) mod 16 ^ n) + v' mod 16"
    by (simp add: mod_mult2_eq)
  ultimately show ?case using a by simp
qed

lemma hexdigest_inj: "hexdigest a = hexdigest b \<Longrightarrow> a = b"
proof -
  assume "hexdigest a = hexdigest b"
  then have "unat a mod 16 ^ 64 = unat b mod 16 ^ 64"
    unfolding hexdigest_def by (rule hex_digits_inj)
  moreover have "unat a < 16 ^ 64" "unat b < 16 ^ 64"
    using unsigned_less[of a, where 'a = nat] unsigned_less[of b, where 'a = nat] by simp_all
  ultimately have "unat a = unat b" by simp
  then show "a = b" by (simp only: word_unat_eq_iff)
qed

lemma ex_dumps_payloads:
  \<open>utf8_encode (json_dumps lib (PDict ex_payload)) = ''{"ext_id": "7", "is_paid": true}''\<close>
  \<open>utf8_encode (json_dumps lib (PDict ex_payload_changed)) = ''{"ext_id": "7", "is_paid": false}''\<close>
  unfolding ex_payload_def ex_payload_changed_def by code_simp+

lemma ex_fingerprints_equal_iff:
  \<open>calculate_hash lib ex_payload = calculate_hash lib ex_payload_changed \<longleftrightarrow>
     sha256 lib ''{"ext_id": "7", "is_paid": true}'' =
     sha256 lib ''{"ext_id": "7", "is_paid": false}''\<close>
  unfolding calculate_hash_def ex_dumps_payloads using hexdigest_inj by auto





end
